theory Spec2Isabelle
  imports Complex_Main "HOL-Library.Word" "HOL-Library.Signed_Division" "HOL-Library.Multiset"
begin

unbundle bit_operations_syntax

section \<open>Values shared by the packages\<close>

text \<open>
  Go's \<^verbatim>\<open>int\<close> is a 64-bit word, read signed. A pointer field is an option. The scale
  parameters are declared with the same fields in both packages; their \<^verbatim>\<open>float64\<close> fields
  are the numbers they denote.
\<close>

type_synonym goint = "64 word"

record ScaleParams =
  Offset :: real
  Scale :: real
  Clip :: real
  ColourScale :: int

text \<open>
  Conversion of a floating-point number to an integer type discards the fraction; when
  the value does not fit, the result is implementation-dependent and is taken from the
  parameter \<open>impl\<close>, which is given the name of the target type.
\<close>

definition trunc :: "real \<Rightarrow> int" where
  "trunc x = (if 0 \<le> x then \<lfloor>x\<rfloor> else \<lceil>x\<rceil>)"

definition fconv :: "(string \<Rightarrow> real \<Rightarrow> int) \<Rightarrow> string \<Rightarrow> int \<Rightarrow> int \<Rightarrow> real \<Rightarrow> int" where
  "fconv impl ty lo hi x = (if lo \<le> trunc x \<and> trunc x \<le> hi then trunc x else impl ty x)"

section \<open>Tile indexer: selection by indices (processor/tile_indexer.go)\<close>

text \<open>
  The type \<open>'v\<close> stands for the \<^verbatim>\<open>float64\<close> values of the axes, which the indexer
  compares, copies and adds; it is a linear order where comparisons matter (no NaN comes
  out of the JSON decoder).
\<close>

record GeoTileIdxSelector =
  Start :: "goint option"
  End :: "goint option"
  Step :: "goint option"
  IsRange :: bool
  IsAll :: bool

record 'v GeoTileAxis =
  Start :: "'v option"
  End :: "'v option"
  InValues :: "'v list"
  Order :: goint
  Aggregate :: goint
  IdxSelectors :: "GeoTileIdxSelector list"

record 'v DatasetAxis =
  Name :: string
  Params :: "'v list"
  Strides :: "goint list"
  Shape :: "goint list"
  Grid :: string
  IntersectionIdx :: "goint list"
  IntersectionValues :: "'v list"
  Order :: goint
  Aggregate :: goint

text \<open>The errors the selection returns, and \<open>RuntimePanic\<close> for an index out of range.\<close>

datatype sel_error =
    GridNotEnum
  | StartIsNull
  | StartAfterEnd
  | StepBelowOne
  | EmptyEnumParams string
  | UnknownGrid string
  | NotHomogeneous
  | RuntimePanic

text \<open>
  \<^verbatim>\<open>sort.Slice\<close> belongs to Go's library. On slices of at most 12 elements it runs an
  insertion sort: each element in turn is swapped leftwards while the comparison \<open>lt\<close> holds between
  it and its left neighbour. That sort is the model here, for every length; the sorted
  part is kept reversed, its last element first.
\<close>

fun insertLeft :: "('a \<Rightarrow> 'a \<Rightarrow> bool) \<Rightarrow> 'a \<Rightarrow> 'a list \<Rightarrow> 'a list" where
  "insertLeft lt x [] = [x]"
| "insertLeft lt x (y # ys) = (if lt x y then y # insertLeft lt x ys else x # y # ys)"

definition sortSlice :: "('a \<Rightarrow> 'a \<Rightarrow> bool) \<Rightarrow> 'a list \<Rightarrow> 'a list" where
  "sortSlice lt xs = rev (foldl (\<lambda>acc x. insertLeft lt x acc) [] xs)"

text \<open>\<^verbatim>\<open>idxLookup\<close> receives only indices that passed the range check of a point selector,
  so its keys are natural numbers.\<close>

definition found :: "nat set \<Rightarrow> goint \<Rightarrow> bool" where
  "found idxLookup idx = (0 \<le> sint idx \<and> nat (sint idx) \<in> idxLookup)"

text \<open>Adding a step of at least one to a non-negative index gives a larger index, or
  wraps around to a negative one.\<close>

lemma sint_add_step:
  fixes idx step :: goint
  assumes "1 \<le>s step" "0 \<le> sint idx"
  shows "sint (idx + step) < 0 \<or> sint idx < sint (idx + step)"
proof -
  define k where "k = sint idx + sint step"
  have s1: "1 \<le> sint step" using assms(1) by (simp add: word_sle_eq)
  have b1: "sint idx < 9223372036854775808" using sint_lt [of idx] by simp
  have b2: "sint step < 9223372036854775808" using sint_lt [of step] by simp
  have eq: "sint (idx + step) = signed_take_bit 63 k"
    by (simp add: sint_word_ariths k_def)
  show ?thesis
  proof (cases "k < 9223372036854775808")
    case True
    have "signed_take_bit 63 k = k"
      using True assms(2) s1 by (intro signed_take_bit_int_eq_self) (auto simp: k_def)
    with eq s1 show ?thesis by (simp add: k_def)
  next
    case False
    have "signed_take_bit 63 k \<le> k - 2 ^ Suc 63"
      using False by (intro signed_take_bit_int_less_eq) simp
    then have "sint (idx + step) \<le> k - 18446744073709551616" using eq by simp
    with b1 b2 show ?thesis unfolding k_def by linarith
  qed
qed

text \<open>
  The loop \<^verbatim>\<open>for idx := idxStart; idx <= idxEnd; idx += step\<close> of a range selector. It is
  entered after the check \<open>step \<ge> 1\<close>, which the guard repeats. Reading \<^verbatim>\<open>axis.Params[idx]\<close>
  outside the slice panics; \<open>idx + step\<close> wraps around.
\<close>

function rangeLoop ::
  "'v list \<Rightarrow> nat set \<Rightarrow> goint \<Rightarrow> goint \<Rightarrow> goint \<Rightarrow> goint list \<times> 'v list \<Rightarrow>
   sel_error + goint list \<times> 'v list" where
  "rangeLoop params idxLookup idxEnd step idx (ixs, vs) =
     (if 1 \<le>s step \<and> idx \<le>s idxEnd then
        if found idxLookup idx then rangeLoop params idxLookup idxEnd step (idx + step) (ixs, vs)
        else if 0 \<le> sint idx \<and> sint idx < int (length params)
        then rangeLoop params idxLookup idxEnd step (idx + step)
               (ixs @ [idx], vs @ [params ! nat (sint idx)])
        else Inl RuntimePanic
      else Inr (ixs, vs))"
  by pat_completeness auto
termination
proof (relation "measure (\<lambda>(params, lk, idxEnd, step, idx, acc). if sint idx < 0 then 0 else nat (2 ^ 63 - sint idx))", goal_cases)
  case 1
  show ?case by simp
next
  case (2 params lk idxEnd step idx ixs vs)
  then have h: "1 \<le>s step" "0 \<le> sint idx" by (auto simp: found_def)
  from sint_add_step [OF h] h(2) sint_lt [of idx] show ?case by auto
next
  case (3 params lk idxEnd step idx ixs vs)
  then have h: "1 \<le>s step" "0 \<le> sint idx" by auto
  from sint_add_step [OF h] h(2) sint_lt [of idx] show ?case by auto
qed

declare rangeLoop.simps [simp del]

text \<open>
  The loop over the selectors. It leaves the function early when a selector selects
  everything (\<^verbatim>\<open>return false, nil\<close>) or lies outside the axis (\<^verbatim>\<open>return true, nil\<close>); the
  lists are then as they are at that moment.
\<close>

datatype 'v gathered =
    ReturnEarly bool "goint list \<times> 'v list"
  | Finished "goint list \<times> 'v list"

fun selLoop ::
  "'v list \<Rightarrow> GeoTileIdxSelector list \<Rightarrow> nat set \<Rightarrow> goint list \<times> 'v list \<Rightarrow>
   sel_error + 'v gathered" where
  "selLoop params [] idxLookup (ixs, vs) = Inr (Finished (ixs, vs))"
| "selLoop params (sel # rest) idxLookup (ixs, vs) =
     (if IsAll sel then
        Inr (ReturnEarly False (map word_of_nat [0..<length params], params))
      else if \<not> IsRange sel then
        (case GeoTileIdxSelector.Start sel of
           None \<Rightarrow> Inl StartIsNull
         | Some idx \<Rightarrow>
             if sint idx < 0 \<or> sint idx > int (length params) - 1
             then Inr (ReturnEarly True (ixs, vs))
             else if found idxLookup idx then selLoop params rest idxLookup (ixs, vs)
             else selLoop params rest (insert (nat (sint idx)) idxLookup)
                    (ixs @ [idx], vs @ [params ! nat (sint idx)]))
      else
        let idxStart = (case GeoTileIdxSelector.Start sel of Some s \<Rightarrow> s | None \<Rightarrow> 0);
            idxEnd = (case GeoTileIdxSelector.End sel of Some e \<Rightarrow> e
                      | None \<Rightarrow> word_of_int (int (length params) - 1))
        in
        if sint idxEnd > int (length params) - 1 then Inr (ReturnEarly True (ixs, vs))
        else if idxEnd <s idxStart then Inl StartAfterEnd
        else
          let step = (case Step sel of Some s \<Rightarrow> s | None \<Rightarrow> 1) in
          if step <s 1 then Inl StepBelowOne
          else
            (case rangeLoop params idxLookup idxEnd step idxStart (ixs, vs) of
               Inl e \<Rightarrow> Inl e
             | Inr acc \<Rightarrow> selLoop params rest idxLookup acc))"

text \<open>The argument sort: the selected indices with their positions, sorted by
  \<^verbatim>\<open>argSortIdx[i].Val <= argSortIdx[j].Val\<close>.\<close>

definition argSort :: "goint list \<Rightarrow> (nat \<times> goint) list" where
  "argSort ixs = sortSlice (\<lambda>a b. snd a \<le>s snd b) (zip [0..<length ixs] ixs)"

text \<open>
  \<^verbatim>\<open>doSelectionByIndices\<close> writes the selection into the axis; the result is the flag
  \<^verbatim>\<open>outRange\<close> and the axis as updated. The new values are written into a slice as long as
  the old values, whose elements start as the zero \<open>fzero\<close> of \<^verbatim>\<open>float64\<close>; more indices
  than values is an index out of range.
\<close>

definition doSelectionByIndices ::
  "'v \<Rightarrow> 'v DatasetAxis \<Rightarrow> 'v GeoTileAxis \<Rightarrow> sel_error + bool \<times> 'v DatasetAxis" where
  "doSelectionByIndices fzero axis tileAxis =
     (if Grid axis \<noteq> ''enum'' then Inl GridNotEnum
      else
        (case selLoop (Params axis) (IdxSelectors tileAxis) {}
                (IntersectionIdx axis, IntersectionValues axis) of
           Inl e \<Rightarrow> Inl e
         | Inr (ReturnEarly outRange (ixs, vs)) \<Rightarrow>
             Inr (outRange, axis\<lparr>IntersectionIdx := ixs, IntersectionValues := vs\<rparr>)
         | Inr (Finished (ixs, vs)) \<Rightarrow>
             if length ixs > length vs then Inl RuntimePanic
             else
               let argSortIdx = argSort ixs;
                   newIntersectionIdx = map snd argSortIdx;
                   newIntersectionValues =
                     map (\<lambda>arg. vs ! fst arg) argSortIdx @ replicate (length vs - length ixs) fzero
               in Inr (False, axis\<lparr>IntersectionIdx := newIntersectionIdx,
                                   IntersectionValues := newIntersectionValues\<rparr>)))"

section \<open>Tile indexer: requests and the Run loop (processor/tile_indexer.go)\<close>

text \<open>
  The records follow the declarations of the processor package. The fields of
  \<^verbatim>\<open>ConfigPayLoad\<close> that the indexer only passes on to later stages, and the metrics
  collector, are left out; palettes, features and geo-location records are opaque. The
  type \<open>'t\<close> stands for \<^verbatim>\<open>time.Time\<close>. Bounding boxes and the spatial extent are
  \<^verbatim>\<open>float64\<close> slices, modelled by the numbers they denote: the indexer takes their maxima
  and minima and compares them, which is exact, and the rounding of the arithmetic on
  sub-tile corners is not modelled.
\<close>

typedecl Palette
typedecl Feature
typedecl GeoLocInfo

record Mask =
  DataSource :: string
  ID :: string

record ConfigPayLoad =
  NameSpaces :: "string list"
  ScaleParams :: ScaleParams
  Palette :: "Palette option"
  Mask :: "Mask option"
  PolygonSegments :: goint
  QueryLimit :: goint
  AxisMapping :: goint
  IndexTileXSize :: real
  IndexTileYSize :: real
  SpatialExtent :: "real list"
  IndexResLimit :: real
  MasQueryHint :: string

record ('v, 't) GeoTileRequest =
  ConfigPayLoad :: ConfigPayLoad
  Collection :: string
  CRS :: string
  BBox :: "real list"
  Height :: goint
  Width :: goint
  OffX :: goint
  OffY :: goint
  StartTime :: "'t option"
  EndTime :: "'t option"
  Axes :: "string \<rightharpoonup> 'v GeoTileAxis"
  ClipFeature :: "Feature option"

record 'v GeoTileGranule =
  ConfigPayLoad :: ConfigPayLoad
  RawPath :: string
  Path :: string
  CRS :: string
  SrcSRS :: string
  SrcGeoTransform :: "real list"
  BBox :: "real list"
  DstGeoTransform :: "real list"
  Height :: goint
  Width :: goint
  RawHeight :: goint
  RawWidth :: goint
  OffX :: goint
  OffY :: goint
  NameSpace :: string
  VarNameSpace :: string
  TimeStamp :: 'v
  BandIdx :: goint
  Polygon :: string
  RasterType :: string
  GeoLocation :: "GeoLocInfo option"
  ClipFeature :: "Feature option"

record 'v GDALDataset =
  RawPath :: string
  DSName :: string
  NameSpace :: string
  ArrayType :: string
  SRS :: string
  GeoTransform :: "real list"
  TimeStamps :: "'v list"
  Polygon :: string
  NoData :: real
  Axes :: "'v DatasetAxis list"
  GeoLocation :: "GeoLocInfo option"
  IsOutRange :: bool

text \<open>
  What lies outside the given sources is a parameter, collected in one record: the
  constant \<^verbatim>\<open>utils.EmptyTileNS\<close>; the zero and the addition of \<^verbatim>\<open>float64\<close>;
  \<^verbatim>\<open>time.Unix(int64(v), 0).UTC()\<close>; the printing of an axis value into a namespace; the
  implementation-dependent float conversions; \<^verbatim>\<open>strings.ToUpper\<close>; the two calls into the
  GDAL library made by \<^verbatim>\<open>GetCanonicalBbox\<close>; the random numbers drawn by \<^verbatim>\<open>rand.Shuffle\<close>.
  A timestamp of a dataset is kept as the value \<^verbatim>\<open>float64(t.Unix())\<close>.
\<close>

record ('v, 't) golib =
  EmptyTileNS :: string
  f64zero :: 'v
  f64add :: "'v \<Rightarrow> 'v \<Rightarrow> 'v"
  timeUnix :: "'v \<Rightarrow> 't"
  fmtValue :: "string \<Rightarrow> 'v \<Rightarrow> string"
  convert :: "string \<Rightarrow> real \<Rightarrow> int"
  ToUpper :: "string \<Rightarrow> string"
  gdalCreate :: "string \<Rightarrow> bool"
  gdalTransform :: "string \<Rightarrow> real \<times> real \<times> real \<times> real \<Rightarrow> (real \<times> real \<times> real \<times> real) option"
  randInt :: "nat \<Rightarrow> nat"

subsection \<open>Strings\<close>

text \<open>
  A Go string is its bytes. \<^verbatim>\<open>strings.TrimSpace\<close> removes the leading and trailing
  white space of Unicode; the list holds the UTF-8 encodings of the white space
  characters: tab, line feed, vertical tab, form feed, carriage return, space, U+0085,
  U+00A0, U+1680, U+2000 to U+200A, U+2028, U+2029, U+202F, U+205F and U+3000.
\<close>

definition spaces :: "string list" where
  "spaces =
     [[CHR 0x09], [CHR 0x0A], [CHR 0x0B], [CHR 0x0C], [CHR 0x0D], [CHR 0x20],
      [CHR 0xC2, CHR 0x85], [CHR 0xC2, CHR 0xA0], [CHR 0xE1, CHR 0x9A, CHR 0x80],
      [CHR 0xE2, CHR 0x80, CHR 0x80], [CHR 0xE2, CHR 0x80, CHR 0x81],
      [CHR 0xE2, CHR 0x80, CHR 0x82], [CHR 0xE2, CHR 0x80, CHR 0x83],
      [CHR 0xE2, CHR 0x80, CHR 0x84], [CHR 0xE2, CHR 0x80, CHR 0x85],
      [CHR 0xE2, CHR 0x80, CHR 0x86], [CHR 0xE2, CHR 0x80, CHR 0x87],
      [CHR 0xE2, CHR 0x80, CHR 0x88], [CHR 0xE2, CHR 0x80, CHR 0x89],
      [CHR 0xE2, CHR 0x80, CHR 0x8A], [CHR 0xE2, CHR 0x80, CHR 0xA8],
      [CHR 0xE2, CHR 0x80, CHR 0xA9], [CHR 0xE2, CHR 0x80, CHR 0xAF],
      [CHR 0xE2, CHR 0x81, CHR 0x9F], [CHR 0xE3, CHR 0x80, CHR 0x80]]"

text \<open>The number of bytes of the pattern that the string starts with, or 0.\<close>

definition leading :: "string list \<Rightarrow> string \<Rightarrow> nat" where
  "leading pats s =
     (case find (\<lambda>p. p \<noteq> [] \<and> take (length p) s = p) pats of
        Some p \<Rightarrow> length p
      | None \<Rightarrow> 0)"

lemma leading_drop_shorter: "0 < leading pats s \<Longrightarrow> length s - leading pats s < length s"
  by (cases s) (auto simp: leading_def find_Some_iff split: option.splits)

function trimBy :: "string list \<Rightarrow> string \<Rightarrow> string" where
  "trimBy pats s = (if leading pats s = 0 then s else trimBy pats (drop (leading pats s) s))"
  by pat_completeness auto
termination
  by (relation "measure (\<lambda>(pats, s). length s)") (auto intro: leading_drop_shorter)

declare trimBy.simps [simp del]

definition TrimSpace :: "string \<Rightarrow> string" where
  "TrimSpace s = rev (trimBy (map rev spaces) (rev (trimBy spaces s)))"

text \<open>\<^verbatim>\<open>strings.Join\<close>.\<close>

fun Join :: "string list \<Rightarrow> string \<Rightarrow> string" where
  "Join [] sep = []"
| "Join [x] sep = x"
| "Join (x # y # ys) sep = x @ sep @ Join (y # ys) sep"

subsection \<open>The empty-tile granule and the query\<close>

text \<open>The granule that stands for an empty tile; the source writes this composite literal
  at each place where it sends one. The fields it does not name are zero.\<close>

definition emptyTile :: "('v, 't) golib \<Rightarrow> ('v, 't) GeoTileRequest \<Rightarrow> 'v GeoTileGranule" where
  "emptyTile lib geoReq =
     \<lparr>GeoTileGranule.ConfigPayLoad =
        \<lparr>NameSpaces = [EmptyTileNS lib],
         ScaleParams = ScaleParams (GeoTileRequest.ConfigPayLoad geoReq),
         Palette = Palette (GeoTileRequest.ConfigPayLoad geoReq),
         Mask = None, PolygonSegments = 0, QueryLimit = 0, AxisMapping = 0,
         IndexTileXSize = 0, IndexTileYSize = 0, SpatialExtent = [], IndexResLimit = 0,
         MasQueryHint = []\<rparr>,
      RawPath = [], Path = ''NULL'', CRS = GeoTileRequest.CRS geoReq, SrcSRS = [],
      SrcGeoTransform = [], BBox = GeoTileRequest.BBox geoReq, DstGeoTransform = [],
      Height = GeoTileRequest.Height geoReq, Width = GeoTileRequest.Width geoReq,
      RawHeight = 0, RawWidth = 0,
      OffX = GeoTileRequest.OffX geoReq, OffY = GeoTileRequest.OffY geoReq,
      NameSpace = EmptyTileNS lib, VarNameSpace = [], TimeStamp = f64zero lib, BandIdx = 0,
      Polygon = [], RasterType = ''Byte'', GeoLocation = None, ClipFeature = None\<rparr>"

text \<open>The URL of a metadata query is kept as the values printed into it; the well-known
  text of the bounding box as its four corners, absent for the empty string.\<close>

record 't IndexQuery =
  qCollection :: string
  qTime :: 't
  qUntil :: "'t option"
  qSRS :: string
  qWkt :: "(real \<times> real \<times> real \<times> real) option"
  qNameSpace :: string
  qNseg :: goint
  qLimit :: goint

text \<open>The panics of \<^verbatim>\<open>Run\<close>: indexing a bounding box of fewer than four numbers, and
  formatting a start time that is \<^verbatim>\<open>nil\<close>.\<close>

datatype run_panic = ShortBBox | NilStartTime

definition BBox2WKT :: "real list \<Rightarrow> run_panic + real \<times> real \<times> real \<times> real" where
  "BBox2WKT bbox =
     (if length bbox < 4 then Inl ShortBBox else Inr (bbox ! 0, bbox ! 1, bbox ! 2, bbox ! 3))"

definition queryURL ::
  "('v, 't) GeoTileRequest \<Rightarrow> string \<Rightarrow> string \<Rightarrow> (real \<times> real \<times> real \<times> real) option \<Rightarrow> string \<Rightarrow>
   run_panic + 't IndexQuery" where
  "queryURL geoReq collection nameSpaces bboxWkt crs =
     (case StartTime geoReq of
        None \<Rightarrow> Inl NilStartTime
      | Some t \<Rightarrow>
          Inr \<lparr>qCollection = collection, qTime = t, qUntil = EndTime geoReq, qSRS = crs,
               qWkt = bboxWkt, qNameSpace = nameSpaces,
               qNseg = PolygonSegments (GeoTileRequest.ConfigPayLoad geoReq),
               qLimit = QueryLimit (GeoTileRequest.ConfigPayLoad geoReq)\<rparr>)"

definition getIndexerURL ::
  "('v, 't) GeoTileRequest \<Rightarrow> string \<Rightarrow> (real \<times> real \<times> real \<times> real) option \<Rightarrow> string \<Rightarrow>
   run_panic + 't IndexQuery" where
  "getIndexerURL geoReq nameSpaces bboxWkt crs =
     queryURL geoReq (Collection geoReq) nameSpaces bboxWkt crs"

subsection \<open>The time axis of the request\<close>

text \<open>The scan of the enumerated values of the time axis for their minimum and
  maximum; the first value initialises both.\<close>

fun minMaxValues :: "'v::linorder list \<Rightarrow> 'v \<times> 'v \<Rightarrow> 'v \<times> 'v" where
  "minMaxValues [] (minVal, maxVal) = (minVal, maxVal)"
| "minMaxValues (val # rest) (minVal, maxVal) =
     (if val < minVal then minMaxValues rest (val, maxVal)
      else if val > maxVal then minMaxValues rest (minVal, val)
      else minMaxValues rest (minVal, maxVal))"

text \<open>The loop over the axes of the request acts on the key \<^verbatim>\<open>"time"\<close> only and stops there.\<close>

definition resolveTime :: "('v::linorder, 't) golib \<Rightarrow> ('v, 't) GeoTileRequest \<Rightarrow> ('v, 't) GeoTileRequest" where
  "resolveTime lib geoReq =
     (case GeoTileRequest.Axes geoReq ''time'' of
        None \<Rightarrow> geoReq
      | Some axis \<Rightarrow>
          (case InValues axis of
             val0 # rest \<Rightarrow>
               let (minVal, maxVal) = minMaxValues rest (val0, val0);
                   geoReq1 = geoReq\<lparr>StartTime := Some (timeUnix lib minVal)\<rparr>
               in if maxVal > minVal then geoReq1\<lparr>EndTime := Some (timeUnix lib maxVal)\<rparr>
                  else geoReq1
           | [] \<Rightarrow>
               let geoReq1 = (case GeoTileAxis.Start axis of
                                Some v \<Rightarrow> geoReq\<lparr>StartTime := Some (timeUnix lib v)\<rparr>
                              | None \<Rightarrow> geoReq)
               in (case GeoTileAxis.End axis of
                     Some v \<Rightarrow> geoReq1\<lparr>EndTime := Some (timeUnix lib v)\<rparr>
                   | None \<Rightarrow> geoReq1)))"

subsection \<open>The canonical bounding box (utils)\<close>

text \<open>\<^verbatim>\<open>GetCanonicalBbox\<close> copies a box that is in EPSG:3857 and asks GDAL to transform any
  other. The result is a panic, or the box together with whether an error came with it.\<close>

datatype canonical = CanonicalError | Canonical "real list"

definition GetCanonicalBbox :: "('v, 't) golib \<Rightarrow> string \<Rightarrow> real list \<Rightarrow> run_panic + canonical" where
  "GetCanonicalBbox lib srs bbox =
     (let srs' = ToUpper lib (TrimSpace srs) in
      if srs' = ''EPSG:3857'' then Inr (Canonical bbox)
      else if \<not> gdalCreate lib srs' then Inr CanonicalError
      else if length bbox < 4 then Inl ShortBBox
      else
        (case gdalTransform lib srs' (bbox ! 0, bbox ! 1, bbox ! 2, bbox ! 3) of
           None \<Rightarrow> Inr CanonicalError
         | Some (x0, y0, x1, y1) \<Rightarrow> Inr (Canonical [x0, y0, x1, y1])))"

subsection \<open>One request\<close>

text \<open>
  What \<^verbatim>\<open>Run\<close> does for a request it has taken from its input: the granules it sends
  downstream itself and the goroutines it starts, each running \<^verbatim>\<open>URLIndexGet\<close> on a query,
  for an empty tile or not, under the concurrency limiter or not.
\<close>

datatype ('v, 't) event =
    Emit "'v GeoTileGranule"
  | Spawn "'t IndexQuery" bool bool

text \<open>The intersection of the canonical bounding box with the configured extent.\<close>

datatype extent = NoSubDivision | Inverted | Clipped "real list"

definition spatialCheck :: "('v, 't) golib \<Rightarrow> ('v, 't) GeoTileRequest \<Rightarrow> run_panic + extent" where
  "spatialCheck lib geoReq =
     (let ext = SpatialExtent (GeoTileRequest.ConfigPayLoad geoReq) in
      if length ext \<ge> 4 then
        (case GetCanonicalBbox lib (GeoTileRequest.CRS geoReq) (GeoTileRequest.BBox geoReq) of
           Inl p \<Rightarrow> Inl p
         | Inr CanonicalError \<Rightarrow> Inr NoSubDivision
         | Inr (Canonical box) \<Rightarrow>
             if length box < 4 then Inl ShortBBox
             else
               let clippedBBox = box[0 := max (box ! 0) (ext ! 0), 1 := max (box ! 1) (ext ! 1),
                                     2 := min (box ! 2) (ext ! 2), 3 := min (box ! 3) (ext ! 3)]
               in if clippedBBox ! 2 < clippedBBox ! 0 \<or> clippedBBox ! 3 < clippedBBox ! 1
                  then Inr Inverted
                  else Inr (Clipped clippedBBox))
      else Inr NoSubDivision)"

text \<open>The values of \<^verbatim>\<open>for y := 0; y < n; y += m\<close>; the sub-tile size \<open>m\<close> is positive where
  the loop is used.\<close>

function steps :: "nat \<Rightarrow> nat \<Rightarrow> nat \<Rightarrow> nat list" where
  "steps n m y = (if y < n \<and> 0 < m then y # steps n m (y + m) else [])"
  by pat_completeness auto
termination
  by (relation "measure (\<lambda>(n, m, y). n - y)") auto

declare steps.simps [simp del]

definition tileSize :: "('v, 't) golib \<Rightarrow> real \<Rightarrow> nat" where
  "tileSize lib f =
     (let m = fconv (convert lib) ''int'' (- (2 ^ 63)) (2 ^ 63 - 1) (256 * f) in
      if m \<le> 0 then 256 else nat m)"

definition subTiles :: "real list \<Rightarrow> nat \<Rightarrow> nat \<Rightarrow> (real \<times> real \<times> real \<times> real) list" where
  "subTiles clippedBBox maxXTileSize maxYTileSize =
     (let xRes = (clippedBBox ! 2 - clippedBBox ! 0) / 256;
          yRes = (clippedBBox ! 3 - clippedBBox ! 1) / 256
      in concat (map (\<lambda>y. map (\<lambda>x.
           (clippedBBox ! 0 + real x * xRes,
            clippedBBox ! 1 + real y * yRes,
            min (clippedBBox ! 0 + real (x + maxXTileSize) * xRes) (clippedBBox ! 2),
            min (clippedBBox ! 1 + real (y + maxYTileSize) * yRes) (clippedBBox ! 3)))
           (steps 256 maxXTileSize 0)) (steps 256 maxYTileSize 0)))"

text \<open>\<^verbatim>\<open>rand.Shuffle\<close>: for \<open>i\<close> from the last index down to 1, swap the element at \<open>i\<close> with
  the one at a random index up to \<open>i\<close>.\<close>

fun shuffleFrom :: "(nat \<Rightarrow> nat) \<Rightarrow> nat \<Rightarrow> 'a list \<Rightarrow> 'a list" where
  "shuffleFrom r 0 xs = xs"
| "shuffleFrom r (Suc i) xs =
     (let j = r (Suc i) mod (Suc (Suc i)) in
      shuffleFrom r i (xs[Suc i := xs ! j, j := xs ! Suc i]))"

definition shuffle :: "(nat \<Rightarrow> nat) \<Rightarrow> 'a list \<Rightarrow> 'a list" where
  "shuffle r xs = shuffleFrom r (length xs - 1) xs"

text \<open>The queries for the request after the spatial check: the sub-tiles of the clipped
  box when the resolution asks for them, else the one query; \<^verbatim>\<open>getIndexerURL\<close> gives for a
  sub-tile the query of the request with the well-known text and the reference system
  replaced. The second component is the well-known text left in \<^verbatim>\<open>bboxWkt\<close>.\<close>

definition mainQueries ::
  "('v, 't) golib \<Rightarrow> ('v, 't) GeoTileRequest \<Rightarrow> bool \<Rightarrow> 't IndexQuery \<Rightarrow> extent \<Rightarrow>
   ('v, 't) event list \<times> (real \<times> real \<times> real \<times> real) option" where
  "mainQueries lib geoReq isEmptyTile url ext =
     (let cfg = GeoTileRequest.ConfigPayLoad geoReq;
          single = ([Spawn url isEmptyTile False], qWkt url)
      in case ext of
           Clipped clippedBBox \<Rightarrow>
             let maxXTileSize = tileSize lib (IndexTileXSize cfg);
                 maxYTileSize = tileSize lib (IndexTileYSize cfg);
                 xRes = (clippedBBox ! 2 - clippedBBox ! 0) / 256;
                 yRes = (clippedBBox ! 3 - clippedBBox ! 1) / 256;
                 reqRes = max xRes yRes
             in if sint (QueryLimit cfg) \<le> 0 \<and> reqRes > IndexResLimit cfg then
                  let tiles = subTiles clippedBBox maxXTileSize maxYTileSize;
                      urls = map (\<lambda>bbox. url\<lparr>qSRS := ''EPSG:3857'', qWkt := Some bbox\<rparr>) tiles
                  in (map (\<lambda>u. Spawn u isEmptyTile True) (shuffle (randInt lib) urls),
                      Some (last tiles))
                else single
         | _ \<Rightarrow> single)"

definition maskQuery ::
  "('v, 't) GeoTileRequest \<Rightarrow> bool \<Rightarrow> string \<Rightarrow> 't IndexQuery \<Rightarrow>
   (real \<times> real \<times> real \<times> real) option \<Rightarrow> ('v, 't) event list" where
  "maskQuery geoReq isEmptyTile nameSpaces url bboxWkt =
     (case Mask (GeoTileRequest.ConfigPayLoad geoReq) of
        None \<Rightarrow> []
      | Some m \<Rightarrow>
          let maskCollection = (if DataSource m = [] then Collection geoReq else DataSource m) in
          if maskCollection \<noteq> Collection geoReq \<or> ID m \<noteq> nameSpaces then
            [Spawn (url\<lparr>qCollection := maskCollection, qSRS := GeoTileRequest.CRS geoReq,
                         qWkt := bboxWkt, qNameSpace := ID m\<rparr>) isEmptyTile False]
          else [])"

text \<open>The body of the \<^verbatim>\<open>default\<close> case of \<^verbatim>\<open>Run\<close>. The result is a panic, or the events
  in their order, the request as updated, and whether \<^verbatim>\<open>Run\<close> returns instead of waiting
  for the goroutines and taking the next request.\<close>

definition Run_request ::
  "('v::linorder, 't) golib \<Rightarrow> ('v, 't) GeoTileRequest \<Rightarrow>
   run_panic + ('v, 't) event list \<times> ('v, 't) GeoTileRequest \<times> bool" where
  "Run_request lib geoReq0 =
     (if length (TrimSpace (Collection geoReq0)) = 0
      then Inr ([Emit (emptyTile lib geoReq0)], geoReq0, True)
      else
        let geoReq1 = resolveTime lib geoReq0;
            cfg1 = GeoTileRequest.ConfigPayLoad geoReq1;
            geoReq = (if length (NameSpaces cfg1) = 0
                      then geoReq1\<lparr>GeoTileRequest.ConfigPayLoad := cfg1\<lparr>NameSpaces := [[]]\<rparr>\<rparr>
                      else geoReq1);
            cfg = GeoTileRequest.ConfigPayLoad geoReq;
            isEmptyTile = (hd (NameSpaces cfg) = EmptyTileNS lib);
            nameSpaces = (if isEmptyTile then [] else Join (NameSpaces cfg) '','')
        in
        (case (if MasQueryHint cfg \<noteq> ''non_spatial''
               then map_sum id Some (BBox2WKT (GeoTileRequest.BBox geoReq)) else Inr None) of
           Inl p \<Rightarrow> Inl p
         | Inr bboxWkt \<Rightarrow>
             (case getIndexerURL geoReq nameSpaces bboxWkt (GeoTileRequest.CRS geoReq) of
                Inl p \<Rightarrow> Inl p
              | Inr url \<Rightarrow>
                  (case spatialCheck lib geoReq of
                     Inl p \<Rightarrow> Inl p
                   | Inr Inverted \<Rightarrow> Inr ([Emit (emptyTile lib geoReq)], geoReq, True)
                   | Inr ext \<Rightarrow>
                       let (spawned, bboxWkt') = mainQueries lib geoReq isEmptyTile url ext
                       in Inr (spawned @ maskQuery geoReq isEmptyTile nameSpaces url bboxWkt',
                               geoReq, False)))))"

text \<open>
  The loop of \<^verbatim>\<open>Run\<close> over its input. What the \<^verbatim>\<open>select\<close> statement finds when a request
  arrives depends on the other goroutines and is given from outside: \<open>sel i\<close> is what it
  finds for the request number \<open>i\<close>. The trace ends with the closing of the output.
\<close>

datatype 'e found_by_select = ContextDone 'e | ErrorPending 'e | NothingPending

datatype ('v, 't, 'e) run_event =
    Did "('v, 't) event"
  | SendError 'e
  | WaitGroup
  | Panicked run_panic
  | CloseOut

fun Run ::
  "('v::linorder, 't) golib \<Rightarrow> (nat \<Rightarrow> 'e found_by_select) \<Rightarrow> nat \<Rightarrow> ('v, 't) GeoTileRequest list \<Rightarrow>
   ('v, 't, 'e) run_event list" where
  "Run lib sel i [] = [CloseOut]"
| "Run lib sel i (geoReq # rest) =
     (case sel i of
        ContextDone e \<Rightarrow> [SendError e, CloseOut]
      | ErrorPending e \<Rightarrow> [SendError e, CloseOut]
      | NothingPending \<Rightarrow>
          (case Run_request lib geoReq of
             Inl p \<Rightarrow> [Panicked p]
           | Inr (events, geoReq', returns) \<Rightarrow>
               if returns then map Did events @ [CloseOut]
               else map Did events @ [WaitGroup] @ Run lib sel (Suc i) rest))"

section \<open>Tile indexer: one metadata query (processor/tile_indexer.go)\<close>

subsection \<open>The error channel\<close>

text \<open>
  The error channel is made by the caller of the indexer; the design gives it a buffer
  of one error. A channel is its capacity and the errors it holds. \<^verbatim>\<open>sendError\<close> is a
  \<^verbatim>\<open>select\<close> with a \<^verbatim>\<open>default\<close> case: it sends when the buffer has room and does nothing
  otherwise, so it never waits. Receivers waiting on the channel are not modelled.
\<close>

datatype indexer_error =
    GetRequestFailed
  | ReadBodyFailed
  | ParseJSONFailed
  | SelectionFailed sel_error
  | ContextCancelled
  | OtherError string

record 'e chan =
  capacity :: nat
  buf :: "'e list"

definition sendError :: "'e chan \<Rightarrow> 'e \<Rightarrow> 'e chan" where
  "sendError ch err = (if length (buf ch) < capacity ch then ch\<lparr>buf := buf ch @ [err]\<rparr> else ch)"

text \<open>
  \<^verbatim>\<open>checkCancellation\<close>: what its \<^verbatim>\<open>select\<close> finds is given from outside. A cancelled
  context sends its error; a pending error is received and sent again.
\<close>

fun checkCancellation :: "indexer_error found_by_select \<Rightarrow> indexer_error chan \<Rightarrow> indexer_error chan \<times> bool" where
  "checkCancellation (ContextDone e) ch = (sendError ch e, True)"
| "checkCancellation (ErrorPending e) ch = (sendError (ch\<lparr>buf := tl (buf ch)\<rparr>) e, True)"
| "checkCancellation NothingPending ch = (ch, False)"

subsection \<open>The response\<close>

text \<open>What the HTTP request, the reading of the body and the JSON decoder give.\<close>

datatype 'v fetched =
    GetFailed
  | ReadFailed
  | ParseFailed
  | Response string "'v GDALDataset list"

subsection \<open>Selection on the axes of a dataset\<close>

text \<open>
  \<^verbatim>\<open>doSelectionByRange\<close> compares \<^verbatim>\<open>float64\<close> values up to a tolerance and times with one
  another; it is a parameter \<open>selRange\<close>, which returns an error or the flag \<^verbatim>\<open>outRange\<close>,
  the axis and the axis of the request as it leaves them.
\<close>

type_synonym ('v, 't) selRange =
  "'v DatasetAxis \<Rightarrow> 'v GeoTileAxis \<Rightarrow> ('v, 't) GeoTileRequest \<Rightarrow> 'v GDALDataset \<Rightarrow>
   sel_error + bool \<times> 'v DatasetAxis \<times> 'v GeoTileAxis"

text \<open>An axis of the dataset that the request names. \<open>lookup\<close> is \<^verbatim>\<open>axisParamsLookup\<close>,
  which holds the parameters of the first dataset seen for each axis selected by
  indices.\<close>

definition selectFound ::
  "('v, 't) golib \<Rightarrow> ('v, 't) selRange \<Rightarrow> ('v, 't) GeoTileRequest \<Rightarrow> 'v GDALDataset \<Rightarrow>
   (string \<rightharpoonup> 'v set) \<Rightarrow> 'v DatasetAxis \<Rightarrow> 'v GeoTileAxis \<Rightarrow>
   sel_error + ('v, 't) GeoTileRequest \<times> (string \<rightharpoonup> 'v set) \<times> bool \<times> 'v DatasetAxis" where
  "selectFound lib selRange geoReq ds lookup axis0 tileAxis =
     (let axis1 =
            (if Name axis0 = ''time'' \<and>
                ((GeoTileAxis.Start tileAxis \<noteq> None \<and> GeoTileAxis.End tileAxis = None)
                 \<or> length (InValues tileAxis) > 0 \<or> length (IdxSelectors tileAxis) > 0)
             then axis0\<lparr>Grid := ''enum'', Params := Params axis0 @ TimeStamps ds\<rparr>
             else axis0);
          axis = axis1\<lparr>Order := GeoTileAxis.Order tileAxis, Aggregate := GeoTileAxis.Aggregate tileAxis\<rparr>
      in
      if length (IdxSelectors tileAxis) > 0 then
        (case lookup (Name axis) of
           None \<Rightarrow>
             (case doSelectionByIndices (f64zero lib) axis tileAxis of
                Inl e \<Rightarrow> Inl e
              | Inr (outRange, axis') \<Rightarrow>
                  Inr (geoReq, lookup(Name axis \<mapsto> set (Params axis)), outRange, axis'))
         | Some seen \<Rightarrow>
             if \<exists>val\<in>set (Params axis). val \<notin> seen then Inl NotHomogeneous
             else
               (case doSelectionByIndices (f64zero lib) axis tileAxis of
                  Inl e \<Rightarrow> Inl e
                | Inr (outRange, axis') \<Rightarrow> Inr (geoReq, lookup, outRange, axis')))
      else
        (case selRange axis tileAxis geoReq ds of
           Inl e \<Rightarrow> Inl e
         | Inr (outRange, axis', tileAxis') \<Rightarrow>
             Inr (geoReq\<lparr>GeoTileRequest.Axes := (GeoTileRequest.Axes geoReq)(Name axis \<mapsto> tileAxis')\<rparr>,
                  lookup, outRange, axis')))"

text \<open>An axis of the dataset that the request does not name: the axis mapping selects
  its first index or all of them.\<close>

definition selectMapped ::
  "('v, 't) GeoTileRequest \<Rightarrow> 'v GDALDataset \<Rightarrow> 'v DatasetAxis \<Rightarrow> sel_error + 'v DatasetAxis" where
  "selectMapped geoReq ds axis =
     (if AxisMapping (GeoTileRequest.ConfigPayLoad geoReq) = 0 then
        (if Grid axis = ''enum'' then
           (if length (Params axis) = 0 then Inl (EmptyEnumParams (Name axis))
            else Inr (axis\<lparr>IntersectionIdx := IntersectionIdx axis @ [0], Order := 1, Aggregate := 1,
                           IntersectionValues := IntersectionValues axis @ [Params axis ! 0]\<rparr>))
         else if Grid axis = ''default'' then
           (if length (TimeStamps ds) = 0 then Inl RuntimePanic
            else Inr (axis\<lparr>IntersectionIdx := IntersectionIdx axis @ [0], Order := 1, Aggregate := 1,
                           IntersectionValues := IntersectionValues axis @ [TimeStamps ds ! 0]\<rparr>))
         else Inl (UnknownGrid (Grid axis)))
      else
        (if Grid axis = ''enum'' then
           (if length (Params axis) = 0 then Inl (EmptyEnumParams (Name axis))
            else Inr (axis\<lparr>IntersectionIdx := IntersectionIdx axis @ map word_of_nat [0..<length (Params axis)],
                           IntersectionValues := IntersectionValues axis @ Params axis\<rparr>))
         else if Grid axis = ''default'' then
           Inr (axis\<lparr>IntersectionIdx := IntersectionIdx axis @ map word_of_nat [0..<length (TimeStamps ds)],
                      IntersectionValues := IntersectionValues axis @ TimeStamps ds\<rparr>)
         else Inl (UnknownGrid (Grid axis))))"

text \<open>\<^verbatim>\<open>axis.IntersectionIdx[i] *= axis.Strides[0]\<close> for every selected index; the
  multiplication wraps around, and without a stride it is an index out of range.\<close>

definition applyStride :: "'v DatasetAxis \<Rightarrow> sel_error + 'v DatasetAxis" where
  "applyStride axis =
     (if IntersectionIdx axis = [] then Inr axis
      else
        (case Strides axis of
           [] \<Rightarrow> Inl RuntimePanic
         | stride # _ \<Rightarrow> Inr (axis\<lparr>IntersectionIdx := map (\<lambda>idx. idx * stride) (IntersectionIdx axis)\<rparr>)))"

text \<open>The selection for one axis of a dataset, before the multiplication by the stride. The
  flag \<^verbatim>\<open>isOutRange\<close> is assigned at every axis that the request names.\<close>

definition selectAxis ::
  "('v, 't) golib \<Rightarrow> ('v, 't) selRange \<Rightarrow> 'v GDALDataset \<Rightarrow> 'v DatasetAxis \<Rightarrow>
   ('v, 't) GeoTileRequest \<times> (string \<rightharpoonup> 'v set) \<times> bool \<Rightarrow>
   sel_error + ('v, 't) GeoTileRequest \<times> (string \<rightharpoonup> 'v set) \<times> bool \<times> 'v DatasetAxis" where
  "selectAxis lib selRange ds axis st =
     (case st of (geoReq, lookup, isOutRange) \<Rightarrow>
        (case GeoTileRequest.Axes geoReq (Name axis) of
           Some tileAxis \<Rightarrow> selectFound lib selRange geoReq ds lookup axis tileAxis
         | None \<Rightarrow>
             (case selectMapped geoReq ds axis of
                Inl e \<Rightarrow> Inl e
              | Inr axis' \<Rightarrow> Inr (geoReq, lookup, isOutRange, axis'))))"

text \<open>The loop over the axes of one dataset: the selection, then the multiplication.\<close>

fun selectAxes ::
  "('v, 't) golib \<Rightarrow> ('v, 't) selRange \<Rightarrow> 'v GDALDataset \<Rightarrow> 'v DatasetAxis list \<Rightarrow>
   ('v, 't) GeoTileRequest \<times> (string \<rightharpoonup> 'v set) \<times> bool \<times> 'v DatasetAxis list \<Rightarrow>
   sel_error + ('v, 't) GeoTileRequest \<times> (string \<rightharpoonup> 'v set) \<times> bool \<times> 'v DatasetAxis list" where
  "selectAxes lib selRange ds [] st = Inr st"
| "selectAxes lib selRange ds (axis # rest) (geoReq, lookup, isOutRange, axesDone) =
     (case selectAxis lib selRange ds axis (geoReq, lookup, isOutRange) of
        Inl e \<Rightarrow> Inl e
      | Inr (geoReq', lookup', isOutRange', axis') \<Rightarrow>
          (case applyStride axis' of
             Inl e \<Rightarrow> Inl e
           | Inr axis'' \<Rightarrow>
               selectAxes lib selRange ds rest (geoReq', lookup', isOutRange', axesDone @ [axis''])))"

text \<open>A dataset without axes gets the default time axis first. The dataset is marked when
  the flag is set after its last axis.\<close>

definition defaultAxis :: "'v DatasetAxis" where
  "defaultAxis = \<lparr>Name = ''time'', Params = [], Strides = [1], Shape = [], Grid = ''default'',
                  IntersectionIdx = [], IntersectionValues = [], Order = 0, Aggregate = 0\<rparr>"

definition selectDataset ::
  "('v, 't) golib \<Rightarrow> ('v, 't) selRange \<Rightarrow> 'v GDALDataset \<Rightarrow>
   ('v, 't) GeoTileRequest \<times> (string \<rightharpoonup> 'v set) \<Rightarrow>
   sel_error + ('v, 't) GeoTileRequest \<times> (string \<rightharpoonup> 'v set) \<times> 'v GDALDataset" where
  "selectDataset lib selRange ds0 st =
     (let ds = (if length (GDALDataset.Axes ds0) = 0 then ds0\<lparr>GDALDataset.Axes := [defaultAxis]\<rparr> else ds0)
      in case selectAxes lib selRange ds (GDALDataset.Axes ds) (fst st, snd st, False, []) of
           Inl e \<Rightarrow> Inl e
         | Inr (geoReq', lookup', isOutRange, axes') \<Rightarrow>
             Inr (geoReq', lookup',
                  ds\<lparr>GDALDataset.Axes := axes',
                     IsOutRange := (if isOutRange then True else IsOutRange ds)\<rparr>))"

fun selectDatasets ::
  "('v, 't) golib \<Rightarrow> ('v, 't) selRange \<Rightarrow> 'v GDALDataset list \<Rightarrow>
   ('v, 't) GeoTileRequest \<times> (string \<rightharpoonup> 'v set) \<times> 'v GDALDataset list \<Rightarrow>
   sel_error + ('v, 't) GeoTileRequest \<times> 'v GDALDataset list" where
  "selectDatasets lib selRange [] (geoReq, lookup, dsDone) = Inr (geoReq, dsDone)"
| "selectDatasets lib selRange (ds # rest) (geoReq, lookup, dsDone) =
     (case selectDataset lib selRange ds (geoReq, lookup) of
        Inl e \<Rightarrow> Inl e
      | Inr (geoReq', lookup', ds') \<Rightarrow>
          selectDatasets lib selRange rest (geoReq', lookup', dsDone @ [ds']))"

subsection \<open>The selected indices\<close>

text \<open>
  The multiplication \<^verbatim>\<open>axis.IntersectionIdx[i] *= axis.Strides[0]\<close> overwrites the indices
  that the selection has appended, so the program keeps no value that holds them. To name
  them, \<open>selectedAxes\<close> is the loop of \<^verbatim>\<open>URLIndexGet\<close> over the axes of one dataset with
  that multiplication left out, and \<open>selections\<close> the loop over the datasets with it: for
  every dataset the axes as \<open>selectAxis\<close> leaves them. The request and
  \<^verbatim>\<open>axisParamsLookup\<close> pass from axis to axis and from dataset to dataset as in
  \<open>selectAxes\<close> and \<open>selectDatasets\<close>, and a dataset without axes gets the default time
  axis.
\<close>

fun selectedAxes ::
  "('v, 't) golib \<Rightarrow> ('v, 't) selRange \<Rightarrow> 'v GDALDataset \<Rightarrow> 'v DatasetAxis list \<Rightarrow>
   ('v, 't) GeoTileRequest \<times> (string \<rightharpoonup> 'v set) \<times> bool \<Rightarrow>
   sel_error + (('v, 't) GeoTileRequest \<times> (string \<rightharpoonup> 'v set) \<times> bool) \<times> 'v DatasetAxis list" where
  "selectedAxes lib selRange ds [] st = Inr (st, [])"
| "selectedAxes lib selRange ds (axis # rest) st =
     (case selectAxis lib selRange ds axis st of
        Inl e \<Rightarrow> Inl e
      | Inr (geoReq', lookup', isOutRange', axis') \<Rightarrow>
          (case selectedAxes lib selRange ds rest (geoReq', lookup', isOutRange') of
             Inl e \<Rightarrow> Inl e
           | Inr (st', sel) \<Rightarrow> Inr (st', axis' # sel)))"

fun selections ::
  "('v, 't) golib \<Rightarrow> ('v, 't) selRange \<Rightarrow> 'v GDALDataset list \<Rightarrow>
   ('v, 't) GeoTileRequest \<times> (string \<rightharpoonup> 'v set) \<Rightarrow> sel_error + 'v DatasetAxis list list" where
  "selections lib selRange [] st = Inr []"
| "selections lib selRange (ds0 # rest) st =
     (let ds = (if length (GDALDataset.Axes ds0) = 0 then ds0\<lparr>GDALDataset.Axes := [defaultAxis]\<rparr> else ds0)
      in case selectedAxes lib selRange ds (GDALDataset.Axes ds) (fst st, snd st, False) of
           Inl e \<Rightarrow> Inl e
         | Inr ((geoReq', lookup', isOutRange), sel) \<Rightarrow>
             (case selections lib selRange rest (geoReq', lookup') of
                Inl e \<Rightarrow> Inl e
              | Inr sels \<Rightarrow> Inr (sel # sels)))"

subsection \<open>Expansion into granules\<close>

text \<open>
  \<^verbatim>\<open>bandNameSpaces\<close> maps a namespace of a dataset to a map from output namespaces to
  their first timestamps; the entries of the inner map are kept in the order of their
  insertion. An index out of range in the expansion is the panic \<open>IndexPanic\<close>.
\<close>

type_synonym 'v bands = "(string \<times> 'v) list"

datatype url_fault = IndexPanic

text \<open>The loop over the axes for one combination of counters: it adds up the band index
  and the two timestamps and builds the namespace.\<close>

fun axesLoop ::
  "('v, 't) golib \<Rightarrow> ('v DatasetAxis \<times> nat) list \<Rightarrow> goint \<times> 'v \<times> 'v \<times> string \<times> bool \<times> bool \<Rightarrow>
   url_fault + goint \<times> 'v \<times> 'v \<times> string \<times> bool \<times> bool" where
  "axesLoop lib [] acc = Inr acc"
| "axesLoop lib ((axis, c) # rest) (bandIdx, aggTimeStamp, bandTimeStamp, namespace, isFirst, hasNonAgg) =
     (if c \<ge> length (IntersectionIdx axis) \<or> c \<ge> length (IntersectionValues axis) then Inl IndexPanic
      else
        let bandIdx' = bandIdx + IntersectionIdx axis ! c;
            bandTimeStamp' = f64add lib bandTimeStamp (IntersectionValues axis ! c);
            iTimeStamp = (if Order axis \<noteq> 0 then length (IntersectionIdx axis) - c - 1 else c)
        in
        if iTimeStamp \<ge> length (IntersectionValues axis) then Inl IndexPanic
        else
          let aggTimeStamp' = f64add lib aggTimeStamp (IntersectionValues axis ! iTimeStamp) in
          if Aggregate axis = 0 then
            axesLoop lib rest
              (bandIdx', aggTimeStamp', bandTimeStamp',
               namespace @ (if isFirst then ''#'' else '','') @ Name axis @ ''='' @
                 fmtValue lib (Name axis) (IntersectionValues axis ! c),
               False, True)
          else axesLoop lib rest (bandIdx', aggTimeStamp', bandTimeStamp', namespace, isFirst, hasNonAgg))"

definition newGranule ::
  "('v, 't) GeoTileRequest \<Rightarrow> bool \<Rightarrow> 'v GDALDataset \<Rightarrow> string \<Rightarrow> 'v \<Rightarrow> goint \<Rightarrow> 'v GeoTileGranule" where
  "newGranule geoReq isEmptyTile ds namespace aggTimeStamp bandIdx =
     \<lparr>GeoTileGranule.ConfigPayLoad = GeoTileRequest.ConfigPayLoad geoReq,
      RawPath = GDALDataset.RawPath ds,
      Path = (if isEmptyTile then ''NULL'' else DSName ds),
      CRS = GeoTileRequest.CRS geoReq, SrcSRS = SRS ds, SrcGeoTransform = GeoTransform ds,
      BBox = GeoTileRequest.BBox geoReq, DstGeoTransform = [],
      Height = (if isEmptyTile then 1 else GeoTileRequest.Height geoReq),
      Width = (if isEmptyTile then 1 else GeoTileRequest.Width geoReq),
      RawHeight = 0, RawWidth = 0, OffX = 0, OffY = 0,
      NameSpace = namespace, VarNameSpace = GDALDataset.NameSpace ds, TimeStamp = aggTimeStamp,
      BandIdx = bandIdx, Polygon = GDALDataset.Polygon ds,
      RasterType = (if isEmptyTile then ''Byte'' else ArrayType ds),
      GeoLocation = GDALDataset.GeoLocation ds,
      ClipFeature = GeoTileRequest.ClipFeature geoReq\<rparr>"

text \<open>The body of the expansion loop for the counters \<open>cnt\<close>.\<close>

definition combination ::
  "('v, 't) golib \<Rightarrow> ('v, 't) GeoTileRequest \<Rightarrow> bool \<Rightarrow> 'v GDALDataset \<Rightarrow> string \<Rightarrow> nat list \<Rightarrow>
   (string \<rightharpoonup> 'v bands) \<times> 'v GeoTileGranule list \<Rightarrow>
   url_fault + (string \<rightharpoonup> 'v bands) \<times> 'v GeoTileGranule list" where
  "combination lib geoReq isEmptyTile ds dsNameSpace cnt st =
     (case axesLoop lib (zip (GDALDataset.Axes ds) cnt)
             (1, f64zero lib, f64zero lib, dsNameSpace, True, False) of
        Inl p \<Rightarrow> Inl p
      | Inr (bandIdx, aggTimeStamp, bandTimeStamp, namespace, isFirst, hasNonAgg) \<Rightarrow>
          let bandNameSpaces = fst st;
              bands = (case bandNameSpaces dsNameSpace of Some b \<Rightarrow> b | None \<Rightarrow> []);
              bFound = (map_of bands namespace \<noteq> None);
              bandNameSpaces' =
                (if hasNonAgg
                 then bandNameSpaces(dsNameSpace \<mapsto>
                        (if bFound then bands else bands @ [(namespace, bandTimeStamp)]))
                 else bandNameSpaces);
              bandFound = (hasNonAgg \<and> bFound);
              gran = newGranule geoReq isEmptyTile ds namespace aggTimeStamp bandIdx
          in if \<not> isEmptyTile \<or> (isEmptyTile \<and> \<not> bandFound)
             then Inr (bandNameSpaces', snd st @ [gran])
             else Inr (bandNameSpaces', snd st))"

text \<open>The last counter advances, and a counter that has run through its axis goes back
  to zero and advances the one before it.\<close>

fun carry :: "nat list \<Rightarrow> nat list \<Rightarrow> nat \<Rightarrow> nat list" where
  "carry lens cnt 0 = cnt"
| "carry lens cnt (Suc ia) =
     (if cnt ! Suc ia \<ge> lens ! Suc ia
      then carry lens (cnt[Suc ia := 0, ia := cnt ! ia + 1]) ia
      else cnt)"

definition advance :: "nat list \<Rightarrow> nat list \<Rightarrow> nat list" where
  "advance lens cnt = (let ia = length cnt - 1 in carry lens (cnt[ia := cnt ! ia + 1]) ia)"

definition axisLens :: "'v GDALDataset \<Rightarrow> nat list" where
  "axisLens ds = map (\<lambda>axis. length (IntersectionIdx axis)) (GDALDataset.Axes ds)"

lemma axesLoop_in_range:
  "axesLoop lib xs acc = Inr r \<Longrightarrow> \<forall>(axis, c)\<in>set xs. c < length (IntersectionIdx axis)"
  by (induction lib xs acc rule: axesLoop.induct) (auto simp: Let_def split: if_splits)

lemma combination_in_range:
  assumes "combination lib geoReq isEmptyTile ds dsNameSpace cnt st = Inr st'"
    and "length cnt = length (GDALDataset.Axes ds)"
  shows "\<forall>i<length cnt. cnt ! i < axisLens ds ! i"
proof (intro allI impI)
  fix i assume i: "i < length cnt"
  from assms(1) obtain r where
    "axesLoop lib (zip (GDALDataset.Axes ds) cnt) (1, f64zero lib, f64zero lib, dsNameSpace, True, False) = Inr r"
    by (auto simp: combination_def split: sum.splits)
  from axesLoop_in_range [OF this] have "\<forall>(axis, c)\<in>set (zip (GDALDataset.Axes ds) cnt). c < length (IntersectionIdx axis)" .
  moreover have "(GDALDataset.Axes ds ! i, cnt ! i) \<in> set (zip (GDALDataset.Axes ds) cnt)"
    using i assms(2) by (auto simp: set_zip)
  ultimately show "cnt ! i < axisLens ds ! i"
    using i assms(2) by (auto simp: axisLens_def)
qed

lemma carry_advances:
  assumes "k < length cnt0" "\<forall>i<length cnt0. cnt0 ! i < lens ! i"
  shows "\<exists>j\<le>k. length (carry lens (cnt0[k := cnt0 ! k + 1]) k) = length cnt0 \<and>
           (\<forall>i<j. carry lens (cnt0[k := cnt0 ! k + 1]) k ! i = cnt0 ! i) \<and>
           carry lens (cnt0[k := cnt0 ! k + 1]) k ! j = cnt0 ! j + 1"
  using assms
proof (induction k arbitrary: cnt0)
  case 0
  then show ?case by simp
next
  case (Suc k)
  let ?c = "cnt0[Suc k := cnt0 ! Suc k + 1]"
  show ?case
  proof (cases "?c ! Suc k \<ge> lens ! Suc k")
    case False
    then have "carry lens ?c (Suc k) = ?c" by simp
    with Suc.prems show ?thesis by (intro exI [of _ "Suc k"]) simp
  next
    case True
    define cnt1 where "cnt1 = cnt0[Suc k := 0]"
    have eq: "?c[Suc k := 0, k := ?c ! k + 1] = cnt1[k := cnt1 ! k + 1]"
      by (simp add: cnt1_def)
    have car: "carry lens ?c (Suc k) = carry lens (cnt1[k := cnt1 ! k + 1]) k"
      using True eq by simp
    have k1: "k < length cnt1" using Suc.prems(1) by (simp add: cnt1_def)
    have v1: "\<forall>i<length cnt1. cnt1 ! i < lens ! i"
    proof (intro allI impI)
      fix i assume "i < length cnt1"
      then have i: "i < length cnt0" by (simp add: cnt1_def)
      show "cnt1 ! i < lens ! i"
      proof (cases "i = Suc k")
        case True
        have "cnt0 ! Suc k < lens ! Suc k" using Suc.prems by simp
        then show ?thesis using True i by (simp add: cnt1_def)
      next
        case False
        then show ?thesis using Suc.prems(2) i by (simp add: cnt1_def)
      qed
    qed
    from Suc.IH [OF k1 v1] obtain j where j: "j \<le> k"
      and l: "length (carry lens (cnt1[k := cnt1 ! k + 1]) k) = length cnt1"
      and a: "\<forall>i<j. carry lens (cnt1[k := cnt1 ! k + 1]) k ! i = cnt1 ! i"
      and b: "carry lens (cnt1[k := cnt1 ! k + 1]) k ! j = cnt1 ! j + 1"
      by blast
    have "\<forall>i<j. cnt1 ! i = cnt0 ! i" using j by (simp add: cnt1_def)
    moreover have "cnt1 ! j = cnt0 ! j" using j by (simp add: cnt1_def)
    ultimately show ?thesis
      using j l a b car by (intro exI [of _ j]) (simp add: cnt1_def)
  qed
qed

lemma advance_lex:
  assumes "cnt \<noteq> []" "length lens = length cnt" "\<forall>i<length cnt. cnt ! i < lens ! i"
  shows "(map2 (-) lens (advance lens cnt), map2 (-) lens cnt) \<in> lex less_than"
proof -
  let ?k = "length cnt - 1"
  have k: "?k < length cnt" using assms(1) by (cases cnt) auto
  from carry_advances [OF k assms(3)] obtain j where j: "j \<le> ?k"
    and l: "length (advance lens cnt) = length cnt"
    and a: "\<forall>i<j. advance lens cnt ! i = cnt ! i"
    and b: "advance lens cnt ! j = cnt ! j + 1"
    unfolding advance_def Let_def by blast
  let ?m' = "map2 (-) lens (advance lens cnt)" and ?m = "map2 (-) lens cnt"
  have jl: "j < length cnt" using j k by simp
  have len: "length ?m' = length ?m" using l assms(2) by simp
  have lm: "length ?m = length cnt" using assms(2) by simp
  have tk: "take j ?m' = take j ?m"
    using a jl l assms(2) by (intro nth_equalityI) auto
  have lt: "?m' ! j < ?m ! j"
    using b jl l assms(2,3) by (simp add: diff_less_mono2)
  have jm: "j < length ?m" and jm': "j < length ?m'" using jl len lm by simp_all
  have e': "?m' = take j ?m @ ?m' ! j # drop (Suc j) ?m'"
    using id_take_nth_drop [OF jm'] by (simp only: tk)
  have e: "?m = take j ?m @ ?m ! j # drop (Suc j) ?m"
    by (rule id_take_nth_drop [OF jm])
  have "(?m' ! j, ?m ! j) \<in> less_than" using lt by simp
  with len e' e show ?thesis unfolding lex_conv by blast
qed

text \<open>The expansion loop of one dataset; the counters are as many as the axes.\<close>

function expand ::
  "('v, 't) golib \<Rightarrow> ('v, 't) GeoTileRequest \<Rightarrow> bool \<Rightarrow> 'v GDALDataset \<Rightarrow> string \<Rightarrow> nat list \<Rightarrow>
   (string \<rightharpoonup> 'v bands) \<times> 'v GeoTileGranule list \<Rightarrow>
   url_fault + (string \<rightharpoonup> 'v bands) \<times> 'v GeoTileGranule list" where
  "expand lib geoReq isEmptyTile ds dsNameSpace cnt st =
     (if cnt \<noteq> [] \<and> length cnt = length (GDALDataset.Axes ds) \<and> cnt ! 0 < axisLens ds ! 0 then
        (case combination lib geoReq isEmptyTile ds dsNameSpace cnt st of
           Inl p \<Rightarrow> Inl p
         | Inr st' \<Rightarrow> expand lib geoReq isEmptyTile ds dsNameSpace (advance (axisLens ds) cnt) st')
      else Inr st)"
  by pat_completeness auto
termination
proof (relation "inv_image (lex less_than)
    (\<lambda>(lib, geoReq, isEmptyTile, ds, dsNameSpace, cnt, st). map2 (-) (axisLens ds) cnt)", goal_cases)
  case 1
  show ?case by (intro wf_inv_image wf_lex wf_less_than)
next
  case (2 lib geoReq isEmptyTile ds dsNameSpace cnt st st')
  then have ne: "cnt \<noteq> []" and len: "length cnt = length (GDALDataset.Axes ds)"
    and ok: "combination lib geoReq isEmptyTile ds dsNameSpace cnt st = Inr st'" by simp_all
  from combination_in_range [OF ok len] have "\<forall>i<length cnt. cnt ! i < axisLens ds ! i" .
  from advance_lex [OF ne _ this, of ] len show ?case by (simp add: axisLens_def)
qed

declare expand.simps [simp del]

fun expandDatasets ::
  "('v, 't) golib \<Rightarrow> ('v, 't) GeoTileRequest \<Rightarrow> bool \<Rightarrow> 'v GDALDataset list \<Rightarrow>
   (string \<rightharpoonup> 'v bands) \<times> 'v GeoTileGranule list \<Rightarrow>
   url_fault + (string \<rightharpoonup> 'v bands) \<times> 'v GeoTileGranule list" where
  "expandDatasets lib geoReq isEmptyTile [] st = Inr st"
| "expandDatasets lib geoReq isEmptyTile (ds # rest) st =
     (if IsOutRange ds then expandDatasets lib geoReq isEmptyTile rest st
      else if GDALDataset.Axes ds = [] then Inl IndexPanic
      else
        (case expand lib geoReq isEmptyTile ds
                (if isEmptyTile then EmptyTileNS lib else GDALDataset.NameSpace ds)
                (replicate (length (GDALDataset.Axes ds)) 0) st of
           Inl p \<Rightarrow> Inl p
         | Inr st' \<Rightarrow> expandDatasets lib geoReq isEmptyTile rest st'))"

subsection \<open>The order of the namespaces\<close>

text \<open>
  For every namespace of the request that has output namespaces, these are put into a
  list by a \<^verbatim>\<open>range\<close> over the inner map and sorted by
  \<^verbatim>\<open>bandNsList[i].Val <= bandNsList[j].Val\<close>. A \<^verbatim>\<open>range\<close> over a map visits the entries in
  an order that the runtime chooses: the permutation that \<open>shuffle\<close> builds from the
  numbers \<open>order k\<close>, for the namespace number \<open>k\<close> of the request. The result is the
  list \<^verbatim>\<open>sortedNameSpaces\<close> and the flag \<^verbatim>\<open>hasNewNs\<close>.
\<close>

fun sortedNameSpaces ::
  "(nat \<Rightarrow> nat \<Rightarrow> nat) \<Rightarrow> nat \<Rightarrow> string list \<Rightarrow> (string \<rightharpoonup> ('v::linorder) bands) \<Rightarrow> string list \<times> bool" where
  "sortedNameSpaces order k [] bandNameSpaces = ([], False)"
| "sortedNameSpaces order k (ns # rest) bandNameSpaces =
     (let (restNs, restNew) = sortedNameSpaces order (Suc k) rest bandNameSpaces in
      case bandNameSpaces ns of
        Some bands \<Rightarrow>
          let bandNsList = shuffle (order k) bands;
              sorted = sortSlice (\<lambda>a b. snd a \<le> snd b) bandNsList
          in (map fst sorted @ restNs, True)
      | None \<Rightarrow> (ns # restNs, restNew))"


subsection \<open>Sending the granules\<close>

text \<open>Before each granule the loop checks for cancellation; \<open>cancel i\<close> is what the check
  finds before the granule number \<open>i\<close>. The result is the granules sent and the error
  channel.\<close>

fun emit ::
  "(nat \<Rightarrow> indexer_error found_by_select) \<Rightarrow> nat \<Rightarrow> 'v GeoTileGranule list \<Rightarrow> indexer_error chan \<Rightarrow>
   'v GeoTileGranule list \<times> indexer_error chan" where
  "emit cancel i [] ch = ([], ch)"
| "emit cancel i (gran # rest) ch =
     (case checkCancellation (cancel i) ch of
        (ch', True) \<Rightarrow> ([], ch')
      | (ch', False) \<Rightarrow>
          let (sent, ch'') = emit cancel (Suc i) rest ch' in (gran # sent, ch''))"

text \<open>
  \<^verbatim>\<open>URLIndexGet\<close>, given what the request to the metadata service came to. The result is a
  panic, or the granules sent downstream and the error channel. The deferred calls on
  the wait group and the limiter, the metrics and the logging are left out.
\<close>

definition URLIndexGet ::
  "('v::linorder, 't) golib \<Rightarrow> ('v, 't) selRange \<Rightarrow> (nat \<Rightarrow> nat \<Rightarrow> nat) \<Rightarrow>
   (nat \<Rightarrow> indexer_error found_by_select) \<Rightarrow> ('v, 't) GeoTileRequest \<Rightarrow> bool \<Rightarrow> 'v fetched \<Rightarrow>
   indexer_error chan \<Rightarrow> url_fault + 'v GeoTileGranule list \<times> indexer_error chan" where
  "URLIndexGet lib selRange order cancel geoReq isEmptyTile resp ch =
     (case resp of
        GetFailed \<Rightarrow> Inr ([emptyTile lib geoReq], sendError ch GetRequestFailed)
      | ReadFailed \<Rightarrow> Inr ([emptyTile lib geoReq], sendError ch ReadBodyFailed)
      | ParseFailed \<Rightarrow> Inr ([emptyTile lib geoReq], sendError ch ParseJSONFailed)
      | Response err datasets \<Rightarrow>
          if length datasets = 0 then Inr ([emptyTile lib geoReq], ch)
          else
            (case selectDatasets lib selRange datasets (geoReq, Map.empty, []) of
               Inl RuntimePanic \<Rightarrow> Inl IndexPanic
             | Inl e \<Rightarrow> Inr ([], sendError ch (SelectionFailed e))
             | Inr (geoReq', datasets') \<Rightarrow>
                 (case expandDatasets lib geoReq' isEmptyTile datasets' (Map.empty, []) of
                    Inl p \<Rightarrow> Inl p
                  | Inr (bandNameSpaces, granList) \<Rightarrow>
                      let (sortedNs, hasNewNs) =
                            sortedNameSpaces order 0
                              (NameSpaces (GeoTileRequest.ConfigPayLoad geoReq')) bandNameSpaces;
                          newConfigPayLoad =
                            (GeoTileRequest.ConfigPayLoad geoReq')\<lparr>NameSpaces := sortedNs\<rparr>;
                          granList' =
                            (if hasNewNs
                             then map (\<lambda>gran. gran\<lparr>GeoTileGranule.ConfigPayLoad := newConfigPayLoad\<rparr>) granList
                             else granList)
                      in Inr (emit cancel 0 granList' ch))))"

subsection \<open>Example values\<close>

text \<open>A library whose axis values and times are integers, with an axis value printed as
  that many strokes, and a request in EPSG:3857 with a start time; they serve as concrete
  inputs.\<close>

definition demoLib :: "(int, int) golib" where
  "demoLib =
     \<lparr>EmptyTileNS = ''EmptyTile'', f64zero = 0, f64add = (+), timeUnix = id,
      fmtValue = (\<lambda>name v. replicate (nat v) (CHR ''|'')), convert = (\<lambda>ty x. 0), ToUpper = id,
      gdalCreate = (\<lambda>srs. False), gdalTransform = (\<lambda>srs box. None), randInt = (\<lambda>i. 0)\<rparr>"

definition demoConfig :: "real list \<Rightarrow> ConfigPayLoad" where
  "demoConfig ext =
     \<lparr>NameSpaces = [''B4''],
      ScaleParams = \<lparr>Offset = 0, Scale = 1, Clip = 0, ColourScale = 0\<rparr>,
      Palette = None, Mask = None, PolygonSegments = 2, QueryLimit = 0, AxisMapping = 0,
      IndexTileXSize = 1, IndexTileYSize = 1, SpatialExtent = ext, IndexResLimit = 0,
      MasQueryHint = []\<rparr>"

definition demoRequest :: "string \<Rightarrow> real list \<Rightarrow> real list \<Rightarrow> (int, int) GeoTileRequest" where
  "demoRequest collection bbox ext =
     \<lparr>GeoTileRequest.ConfigPayLoad = demoConfig ext, Collection = collection,
      CRS = ''EPSG:3857'', BBox = bbox, Height = 256, Width = 256, OffX = 0, OffY = 0,
      StartTime = Some 0, EndTime = None, Axes = Map.empty, ClipFeature = None\<rparr>"

text \<open>An enumerated axis with one stride, a dataset with given axes, and a request that
  names no axis and maps every axis to all of its indices.\<close>

definition demoAxis :: "string \<Rightarrow> int list \<Rightarrow> goint \<Rightarrow> int DatasetAxis" where
  "demoAxis name params stride =
     \<lparr>Name = name, Params = params, Strides = [stride], Shape = [word_of_nat (length params)],
      Grid = ''enum'', IntersectionIdx = [], IntersectionValues = [], Order = 0, Aggregate = 0\<rparr>"

definition demoDataset :: "int DatasetAxis list \<Rightarrow> int GDALDataset" where
  "demoDataset axes =
     \<lparr>RawPath = ''a.nc'', DSName = ''a.nc'', NameSpace = ''B4'', ArrayType = ''Int16'',
      SRS = ''EPSG:4326'', GeoTransform = [], TimeStamps = [7], Polygon = [], NoData = 0,
      Axes = axes, GeoLocation = None, IsOutRange = False\<rparr>"

definition demoAllIndices :: "(int, int) GeoTileRequest" where
  "demoAllIndices =
     (demoRequest ''landsat'' [0, 0, 10, 10] [])
       \<lparr>GeoTileRequest.ConfigPayLoad := (demoConfig [])\<lparr>AxisMapping := 1\<rparr>\<rparr>"

section \<open>Band-math complexity check (utils/config.go)\<close>

text \<open>
  \<^verbatim>\<open>CheckBandExpressionsComplexity\<close> inspects the token streams of the parsed expressions.
  The expression library is external: a token is its kind and its dynamically typed value,
  the kind of variable tokens and the printing of kinds (\<^verbatim>\<open>Kind.String()\<close>) are parameters.
  A dynamically typed value is a string or something else; a decoded JSON value of the
  token ACL is null, a list or something else.
\<close>

datatype tokval = TStr string | TOther

record 'k token =
  Kind :: 'k
  Value :: tokval

datatype aclval = AStr string | ANonStr

datatype acl = AclNil | AclList "aclval list" | AclOther

record BandExpressionComplexityCriteria =
  MaxVariables :: int
  MaxTokens :: int
  MaxExpressions :: int
  TokenACL :: "string \<rightharpoonup> acl"
  VariableLookup :: "string set"

record 'k BandExpressions =
  Expressions :: "'k token list list"
  VarList :: "string list"

datatype band_error =
    NotEnabled
  | TooManyExpressions int
  | TooManyVariables int
  | TooManyTokens int
  | VariableCastFailed
  | VariableNotSupported string "string set"
  | OperationNotSupported tokval

text \<open>The first loop over the tokens: every variable token must be a string found in
  the lookup set. The loop returns at the first offending token.\<close>

fun checkVariables :: "'k \<Rightarrow> string set \<Rightarrow> 'k token list \<Rightarrow> band_error option" where
  "checkVariables VARIABLE lookup [] = None"
| "checkVariables VARIABLE lookup (t # ts) =
     (if Kind t = VARIABLE then
        (case Value t of
           TOther \<Rightarrow> Some VariableCastFailed
         | TStr varName \<Rightarrow>
             if varName \<notin> lookup then Some (VariableNotSupported varName lookup)
             else checkVariables VARIABLE lookup ts)
      else checkVariables VARIABLE lookup ts)"

text \<open>The deny list built from an ACL list: a non-string entry is logged and entered
  as the empty string (the zero value of the failed type assertion).\<close>

definition aclLookup :: "aclval list \<Rightarrow> string set" where
  "aclLookup vs = set (map (\<lambda>v. case v of AStr s \<Rightarrow> s | ANonStr \<Rightarrow> []) vs)"

definition isTokenAllowed :: "acl \<Rightarrow> tokval \<Rightarrow> bool" where
  "isTokenAllowed a v =
     (case a of
        AclNil \<Rightarrow> False
      | AclList vs \<Rightarrow> (case v of TOther \<Rightarrow> True | TStr val \<Rightarrow> val \<notin> aclLookup vs)
      | AclOther \<Rightarrow> True)"

fun checkACL :: "('k \<Rightarrow> string) \<Rightarrow> (string \<rightharpoonup> acl) \<Rightarrow> 'k token list \<Rightarrow> band_error option" where
  "checkACL kindString tacl [] = None"
| "checkACL kindString tacl (t # ts) =
     (case tacl (kindString (Kind t)) of
        None \<Rightarrow> checkACL kindString tacl ts
      | Some a \<Rightarrow>
          if isTokenAllowed a (Value t) then checkACL kindString tacl ts
          else Some (OperationNotSupported (Value t)))"

text \<open>The result is \<open>None\<close> for Go's \<^verbatim>\<open>nil\<close> error. The nested loops over expressions
  and their tokens visit the concatenation of the token lists in order.\<close>

definition CheckBandExpressionsComplexity ::
  "'k \<Rightarrow> ('k \<Rightarrow> string) \<Rightarrow> 'k BandExpressions \<Rightarrow> BandExpressionComplexityCriteria \<Rightarrow> band_error option" where
  "CheckBandExpressionsComplexity VARIABLE kindString bandExpr criteria =
     (if VariableLookup criteria = {} then Some NotEnabled
      else if int (length (Expressions bandExpr)) > MaxExpressions criteria
        then Some (TooManyExpressions (int (length (Expressions bandExpr))))
      else if int (length (VarList bandExpr)) > MaxVariables criteria
        then Some (TooManyVariables (int (length (VarList bandExpr))))
      else let tokenCount = sum_list (map (\<lambda>e. int (length e)) (Expressions bandExpr)) in
        if tokenCount > MaxTokens criteria then Some (TooManyTokens tokenCount)
        else (case checkVariables VARIABLE (VariableLookup criteria) (concat (Expressions bandExpr)) of
                Some e \<Rightarrow> Some e
              | None \<Rightarrow>
                  if TokenACL criteria \<noteq> Map.empty
                  then checkACL kindString (TokenACL criteria) (concat (Expressions bandExpr))
                  else None))"

section \<open>Scaling rasters to bytes (utils/raster_scaler_new.go)\<close>

text \<open>
  Rasters hold their samples in slices, and \<^verbatim>\<open>scaleNew\<close> writes through one of them, so the
  model has an explicit store: a list of buffers, a slice being the index of its buffer
  (every slice here covers its whole backing array). \<^verbatim>\<open>make\<close> appends a zeroed buffer.
  The raster types are declared outside the given sources; their fields are taken from
  their uses in \<^verbatim>\<open>scaleNew\<close>. Samples of 8 and 16 bits are words, read signed or unsigned
  as the element type says; \<open>'f\<close> stands for \<^verbatim>\<open>float32\<close> samples.
\<close>

datatype 'f buf =
    I8Buf "8 word list"
  | U8Buf "8 word list"
  | I16Buf "16 word list"
  | U16Buf "16 word list"
  | F32Buf "'f list"

type_synonym 'f store = "'f buf list"

record RasterHdr =
  NameSpace :: string
  Data :: nat
  Height :: int
  Width :: int
  NoData :: real

datatype Raster =
    SignedByteRaster RasterHdr
  | ByteRaster RasterHdr
  | Int16Raster RasterHdr
  | UInt16Raster RasterHdr
  | Float32Raster RasterHdr
  | OtherRaster

text \<open>Run-time panics and the returned error of \<^verbatim>\<open>scaleNew\<close>. \<open>BadSlice\<close> marks a slice
  that does not denote a buffer of its element type, which Go's typing excludes.\<close>

datatype failure =
    DivideByZero
  | IndexOutOfRange
  | MakeSliceLen
  | RasterTypeNotImplemented
  | BadSlice

definition toInt8 :: "(string \<Rightarrow> real \<Rightarrow> int) \<Rightarrow> real \<Rightarrow> 8 word" where
  "toInt8 impl x = word_of_int (fconv impl ''int8'' (- 128) 127 x)"

definition toUint8 :: "(string \<Rightarrow> real \<Rightarrow> int) \<Rightarrow> real \<Rightarrow> 8 word" where
  "toUint8 impl x = word_of_int (fconv impl ''uint8'' 0 255 x)"

definition toInt16 :: "(string \<Rightarrow> real \<Rightarrow> int) \<Rightarrow> real \<Rightarrow> 16 word" where
  "toInt16 impl x = word_of_int (fconv impl ''int16'' (- 32768) 32767 x)"

definition toUint16 :: "(string \<Rightarrow> real \<Rightarrow> int) \<Rightarrow> real \<Rightarrow> 16 word" where
  "toUint16 impl x = word_of_int (fconv impl ''uint16'' 0 65535 x)"

text \<open>
  The scan for the minimum and maximum of the samples that are not no-data. The
  accumulators are \<^verbatim>\<open>float32\<close> in the source; every sample of 8 or 16 bits is exactly
  representable there, so they are modelled by the numbers themselves. The accumulators
  are initialised only when the sample at index 0 is not no-data.
\<close>

fun minMaxLoop :: "('a \<Rightarrow> int) \<Rightarrow> 'a \<Rightarrow> nat \<Rightarrow> 'a list \<Rightarrow> real \<times> real \<Rightarrow> real \<times> real" where
  "minMaxLoop rd noData i [] (minVal, maxVal) = (minVal, maxVal)"
| "minMaxLoop rd noData i (value # rest) (minVal, maxVal) =
     (if value = noData then minMaxLoop rd noData (Suc i) rest (minVal, maxVal)
      else
        let val = real_of_int (rd value) in
        if i = 0 then minMaxLoop rd noData (Suc i) rest (val, val)
        else
          let minVal' = (if val < minVal then val else minVal);
              maxVal' = (if val > maxVal then val else maxVal)
          in minMaxLoop rd noData (Suc i) rest (minVal', maxVal'))"

text \<open>
  The offset and the clip value of an integer branch. When both parameters are zero
  they come from the scan; \<^verbatim>\<open>maxVal += 0.1\<close> is a \<^verbatim>\<open>float32\<close> addition whose rounded
  result lies strictly between the integer \<open>maxVal\<close> and its successor, so converting it
  to the integer type gives what converting the exact sum gives.
\<close>

definition offsetClip ::
  "('a \<Rightarrow> int) \<Rightarrow> (real \<Rightarrow> 'a) \<Rightarrow> ScaleParams \<Rightarrow> 'a \<Rightarrow> 'a list \<Rightarrow> 'a \<times> 'a" where
  "offsetClip rd conv params noData data =
     (if Clip params = 0 \<and> Offset params = 0 then
        let (minVal, maxVal) = minMaxLoop rd noData 0 data (0, 0);
            maxVal' = (if minVal = maxVal then maxVal + 0.1 else maxVal)
        in (conv minVal, conv maxVal')
      else (conv (Offset params), conv (Clip params)))"

text \<open>
  One sample that is not no-data: clamp to \<open>clip\<close>, then
  \<^verbatim>\<open>uint8(math.Floor(float64((value - clip) / trange * (T(steps) - 1))))\<close> in the arithmetic
  of the element type \<open>T\<close>: subtraction and multiplication wrap, the division truncates
  and panics on a zero divisor, \<^verbatim>\<open>T(steps)\<close> is 256 cut to the width of \<open>T\<close>. The function
  \<open>rd\<close> reads a word as the integer it stands for (\<open>sint\<close> or \<open>uint\<close>).
\<close>

definition scaleSample ::
  "(string \<Rightarrow> real \<Rightarrow> int) \<Rightarrow> ('a::len word \<Rightarrow> int) \<Rightarrow> 'a word \<Rightarrow> 'a word \<Rightarrow> 'a word \<Rightarrow> failure + 8 word" where
  "scaleSample impl rd clip trange value =
     (let value' = (if rd value > rd clip then clip else value) in
      if trange = 0 then Inl DivideByZero
      else
        let q = (word_of_int (rd (value' - clip) sdiv rd trange) :: 'a word);
            r = q * (word_of_int 256 - 1)
        in Inr (toUint8 impl (real_of_int \<lfloor>real_of_int (rd r)\<rfloor>)))"

text \<open>The scaling loop of the branches that write a fresh output buffer: \<open>i\<close> is the
  index of the head of the remaining input, \<open>out\<close> the output buffer. The result is the
  panic that stopped the loop, if any, and the buffer as it then is.\<close>

fun scaleLoop ::
  "(string \<Rightarrow> real \<Rightarrow> int) \<Rightarrow> ('a::len word \<Rightarrow> int) \<Rightarrow> 'a word \<Rightarrow> 'a word \<Rightarrow> 'a word \<Rightarrow>
   nat \<Rightarrow> 'a word list \<Rightarrow> 8 word list \<Rightarrow> failure option \<times> 8 word list" where
  "scaleLoop impl rd noData clip trange i [] out = (None, out)"
| "scaleLoop impl rd noData clip trange i (value # rest) out =
     (if value = noData then
        (if i < length out then scaleLoop impl rd noData clip trange (Suc i) rest (out[i := 0xFF])
         else (Some IndexOutOfRange, out))
      else
        (case scaleSample impl rd clip trange value of
           Inl e \<Rightarrow> (Some e, out)
         | Inr c \<Rightarrow>
             if i < length out then scaleLoop impl rd noData clip trange (Suc i) rest (out[i := c])
             else (Some IndexOutOfRange, out)))"

text \<open>The loop of the \<^verbatim>\<open>ByteRaster\<close> branch reads and writes the same buffer.\<close>

function scaleLoopInPlace ::
  "(string \<Rightarrow> real \<Rightarrow> int) \<Rightarrow> 8 word \<Rightarrow> 8 word \<Rightarrow> 8 word \<Rightarrow> nat \<Rightarrow> 8 word list \<Rightarrow>
   failure option \<times> 8 word list" where
  "scaleLoopInPlace impl noData clip trange i data =
     (if i < length data then
        (let value = data ! i in
         if value = noData then scaleLoopInPlace impl noData clip trange (Suc i) (data[i := 0xFF])
         else
           (case scaleSample impl uint clip trange value of
              Inl e \<Rightarrow> (Some e, data)
            | Inr c \<Rightarrow> scaleLoopInPlace impl noData clip trange (Suc i) (data[i := c])))
      else (None, data))"
  by pat_completeness auto
termination
  by (relation "measure (\<lambda>(impl, noData, clip, trange, i, data). length data - i)") auto

declare scaleLoopInPlace.simps [simp del]

text \<open>\<^verbatim>\<open>make([]uint8, t.Height*t.Width)\<close>: the product is taken in 64-bit integers and a
  negative length panics.\<close>

definition makeBytes :: "int \<Rightarrow> int \<Rightarrow> 8 word list option" where
  "makeBytes h w =
     (let n = signed_take_bit 63 (h * w) in
      if n < 0 then None else Some (replicate (nat n) 0))"

text \<open>An integer branch with a fresh output buffer (\<^verbatim>\<open>SignedByteRaster\<close>, \<^verbatim>\<open>Int16Raster\<close>,
  \<^verbatim>\<open>UInt16Raster\<close>): the four integer branches of the source differ in the element type
  only, and the \<^verbatim>\<open>ByteRaster\<close> one in writing to its input.\<close>

definition scaleInts ::
  "(string \<Rightarrow> real \<Rightarrow> int) \<Rightarrow> ('a::len word \<Rightarrow> int) \<Rightarrow> (real \<Rightarrow> 'a word) \<Rightarrow> ScaleParams \<Rightarrow> real \<Rightarrow>
   'a word list \<Rightarrow> 8 word list \<Rightarrow> failure option \<times> 8 word list" where
  "scaleInts impl rd conv params nd data out =
     (let noData = conv nd;
          (offset, clip) = offsetClip rd conv params noData data;
          trange = clip - offset
      in scaleLoop impl rd noData clip trange 0 data out)"

definition scaleBytesInPlace ::
  "(string \<Rightarrow> real \<Rightarrow> int) \<Rightarrow> ScaleParams \<Rightarrow> real \<Rightarrow> 8 word list \<Rightarrow> failure option \<times> 8 word list" where
  "scaleBytesInPlace impl params nd data =
     (let noData = toUint8 impl nd;
          (offset, clip) = offsetClip uint (toUint8 impl) params noData data;
          trange = clip - offset
      in scaleLoopInPlace impl noData clip trange 0 data)"

text \<open>The \<^verbatim>\<open>Float32Raster\<close> branch computes in floating point; its arithmetic is not
  modelled. The parameter \<open>f32px params nd data i\<close> stands for the byte it stores at index
  \<open>i\<close>; the loop and its writes are modelled.\<close>

fun scaleLoopF32 :: "(nat \<Rightarrow> 8 word) \<Rightarrow> nat \<Rightarrow> 'f list \<Rightarrow> 8 word list \<Rightarrow> failure option \<times> 8 word list" where
  "scaleLoopF32 px i [] out = (None, out)"
| "scaleLoopF32 px i (value # rest) out =
     (if i < length out then scaleLoopF32 px (Suc i) rest (out[i := px i])
      else (Some IndexOutOfRange, out))"

definition outRaster :: "RasterHdr \<Rightarrow> nat \<Rightarrow> RasterHdr" where
  "outRaster t a = \<lparr>NameSpace = NameSpace t, Data = a, Height = Height t, Width = Width t, NoData = NoData t\<rparr>"

text \<open>A branch with a fresh output buffer: allocate it, run the loop \<open>body\<close> on it, and
  return the raster that holds it.\<close>

definition withFreshOut ::
  "'f store \<Rightarrow> RasterHdr \<Rightarrow> (8 word list \<Rightarrow> failure option \<times> 8 word list) \<Rightarrow>
   'f store \<times> (failure + RasterHdr)" where
  "withFreshOut st t body =
     (case makeBytes (Height t) (Width t) of
        None \<Rightarrow> (st, Inl MakeSliceLen)
      | Some zeros \<Rightarrow>
          let a = length st;
              (r, out) = body zeros;
              st' = st @ [U8Buf out]
          in (st', case r of Some e \<Rightarrow> Inl e | None \<Rightarrow> Inr (outRaster t a)))"

definition load :: "'f store \<Rightarrow> nat \<Rightarrow> 'f buf option" where
  "load st a = (if a < length st then Some (st ! a) else None)"

fun scaleNew ::
  "(string \<Rightarrow> real \<Rightarrow> int) \<Rightarrow> (ScaleParams \<Rightarrow> real \<Rightarrow> 'f list \<Rightarrow> nat \<Rightarrow> 8 word) \<Rightarrow>
   'f store \<Rightarrow> Raster \<Rightarrow> ScaleParams \<Rightarrow> 'f store \<times> (failure + RasterHdr)" where
  "scaleNew impl f32px st (SignedByteRaster t) params =
     (case load st (Data t) of
        Some (I8Buf data) \<Rightarrow>
          withFreshOut st t (scaleInts impl sint (toInt8 impl) params (NoData t) data)
      | _ \<Rightarrow> (st, Inl BadSlice))"
| "scaleNew impl f32px st (ByteRaster t) params =
     (case load st (Data t) of
        Some (U8Buf data) \<Rightarrow>
          let (r, data') = scaleBytesInPlace impl params (NoData t) data;
              st' = st[Data t := U8Buf data']
          in (st', case r of Some e \<Rightarrow> Inl e | None \<Rightarrow> Inr (outRaster t (Data t)))
      | _ \<Rightarrow> (st, Inl BadSlice))"
| "scaleNew impl f32px st (Int16Raster t) params =
     (case load st (Data t) of
        Some (I16Buf data) \<Rightarrow>
          withFreshOut st t (scaleInts impl sint (toInt16 impl) params (NoData t) data)
      | _ \<Rightarrow> (st, Inl BadSlice))"
| "scaleNew impl f32px st (UInt16Raster t) params =
     (case load st (Data t) of
        Some (U16Buf data) \<Rightarrow>
          withFreshOut st t (scaleInts impl uint (toUint16 impl) params (NoData t) data)
      | _ \<Rightarrow> (st, Inl BadSlice))"
| "scaleNew impl f32px st (Float32Raster t) params =
     (case load st (Data t) of
        Some (F32Buf data) \<Rightarrow>
          withFreshOut st t (scaleLoopF32 (f32px params (NoData t) data) 0 data)
      | _ \<Rightarrow> (st, Inl BadSlice))"
| "scaleNew impl f32px st OtherRaster params = (st, Inl RasterTypeNotImplemented)"

text \<open>The linear mapping as the specification words it, for comparison with the code:
  \<open>floor((v - offset) / (clip - offset) * 255)\<close>, values below 0 or above 255 becoming the
  no-data byte.\<close>

definition spec_scale :: "real \<Rightarrow> real \<Rightarrow> real \<Rightarrow> int" where
  "spec_scale offset clip v =
     (let c = \<lfloor>(v - offset) / (clip - offset) * 255\<rfloor> in
      if c < 0 \<or> c > 255 then 255 else c)"

section \<open>Properties\<close>

subsection \<open>The insertion sort\<close>

text \<open>With a comparison \<open>k a \<le> k b\<close> on a key \<open>k\<close>, the sort returns a permutation of its
  input that is sorted by the key; the result is determined by the elements alone when no
  two of them have the same key.\<close>

lemma mset_insertLeft: "mset (insertLeft lt x ys) = add_mset x (mset ys)"
  by (induction ys) auto

lemma set_insertLeft: "set (insertLeft lt x ys) = insert x (set ys)"
  by (induction ys) auto

lemma desc_insertLeft:
  fixes k :: "'a \<Rightarrow> 'b::linorder"
  assumes "sorted_wrt (\<lambda>a b. k b \<le> k a) ys"
  shows "sorted_wrt (\<lambda>a b. k b \<le> k a) (insertLeft (\<lambda>a b. k a \<le> k b) x ys)"
  using assms
proof (induction ys)
  case Nil
  then show ?case by simp
next
  case (Cons y ys)
  then show ?case by (auto simp: set_insertLeft)
qed

lemma foldl_insertLeft:
  fixes k :: "'a \<Rightarrow> 'b::linorder"
  assumes "sorted_wrt (\<lambda>a b. k b \<le> k a) acc"
  shows "sorted_wrt (\<lambda>a b. k b \<le> k a) (foldl (\<lambda>acc x. insertLeft (\<lambda>a b. k a \<le> k b) x acc) acc xs)
       \<and> mset (foldl (\<lambda>acc x. insertLeft (\<lambda>a b. k a \<le> k b) x acc) acc xs) = mset acc + mset xs"
  using assms
proof (induction xs arbitrary: acc)
  case Nil
  then show ?case by simp
next
  case (Cons x xs)
  from Cons.IH [OF desc_insertLeft [OF Cons.prems, of x]]
  show ?case by (simp add: mset_insertLeft)
qed

lemma sortSlice_sorted:
  fixes k :: "'a \<Rightarrow> 'b::linorder"
  shows "sorted (map k (sortSlice (\<lambda>a b. k a \<le> k b) xs))"
proof -
  have "sorted_wrt (\<lambda>a b. k b \<le> k a) (foldl (\<lambda>acc x. insertLeft (\<lambda>a b. k a \<le> k b) x acc) [] xs)"
    using foldl_insertLeft [of k "[]" xs] by simp
  then show ?thesis
    by (simp add: sortSlice_def sorted_map sorted_wrt_rev)
qed

lemma sortSlice_mset:
  fixes k :: "'a \<Rightarrow> 'b::linorder"
  shows "mset (sortSlice (\<lambda>a b. k a \<le> k b) xs) = mset xs"
  using foldl_insertLeft [of k "[]" xs] by (simp add: sortSlice_def)


subsection \<open>Selection by indices\<close>

lemma sint_add_nowrap:
  fixes a b :: goint
  assumes "0 \<le> sint a" "0 \<le> sint b" "sint a + sint b < 2 ^ 63"
  shows "sint (a + b) = sint a + sint b"
proof -
  have "sint (a + b) = signed_take_bit 63 (sint a + sint b)"
    by (simp add: sint_word_ariths)
  also have "\<dots> = sint a + sint b"
    using assms by (intro signed_take_bit_int_eq_self) auto
  finally show ?thesis .
qed

lemma rangeLoop_paired:
  assumes "rangeLoop params lk e st idx (ixs, vs) = Inr (ixs', vs')"
    and "vs = map (\<lambda>i. params ! nat (sint i)) ixs"
    and "\<forall>i\<in>set ixs. 0 \<le> sint i \<and> sint i < int (length params)"
  shows "vs' = map (\<lambda>i. params ! nat (sint i)) ixs' \<and>
         (\<forall>i\<in>set ixs'. 0 \<le> sint i \<and> sint i < int (length params))"
  using assms
proof (induction params lk e st idx "(ixs, vs)" arbitrary: ixs vs rule: rangeLoop.induct)
  case (1 params lk e st idx ixs vs)
  show ?case
  proof (cases "1 \<le>s st \<and> idx \<le>s e")
    case False
    with "1.prems" show ?thesis by (subst (asm) rangeLoop.simps) auto
  next
    case True
    note go = this
    show ?thesis
    proof (cases "found lk idx")
      case True
      with go "1.prems"(1) have "rangeLoop params lk e st (idx + st) (ixs, vs) = Inr (ixs', vs')"
        by (subst (asm) rangeLoop.simps) simp
      from "1.hyps"(1) [OF go True this "1.prems"(2,3)] show ?thesis .
    next
      case False
      note nf = this
      show ?thesis
      proof (cases "0 \<le> sint idx \<and> sint idx < int (length params)")
        case False
        with go nf "1.prems"(1) show ?thesis by (subst (asm) rangeLoop.simps) simp
      next
        case True
        with go nf "1.prems"(1)
        have run: "rangeLoop params lk e st (idx + st) (ixs @ [idx], vs @ [params ! nat (sint idx)]) = Inr (ixs', vs')"
          by (subst (asm) rangeLoop.simps) simp
        have p1: "vs @ [params ! nat (sint idx)] = map (\<lambda>i. params ! nat (sint i)) (ixs @ [idx])"
          using "1.prems"(2) by simp
        have p2: "\<forall>i\<in>set (ixs @ [idx]). 0 \<le> sint i \<and> sint i < int (length params)"
          using "1.prems"(3) True by auto
        from "1.hyps"(2) [OF go nf True run p1 p2] show ?thesis .
      qed
    qed
  qed
qed

lemma sint_word_of_nat64:
  assumes "k < 2 ^ 63"
  shows "sint (word_of_nat k :: goint) = int k"
proof -
  have "sint (word_of_nat k :: goint) = signed_take_bit 63 (int k)"
    by (simp add: signed_of_nat)
  also have "\<dots> = int k"
    using assms by (intro signed_take_bit_int_eq_self) auto
  finally show ?thesis .
qed

lemma selLoop_paired:
  assumes "selLoop params sels lk (ixs, vs) = Inr g"
    and "vs = map (\<lambda>i. params ! nat (sint i)) ixs"
    and "\<forall>i\<in>set ixs. 0 \<le> sint i \<and> sint i < int (length params)"
    and "length params < 2 ^ 63"
  shows "\<exists>b ixs' vs'. (g = ReturnEarly b (ixs', vs') \<or> g = Finished (ixs', vs')) \<and>
           vs' = map (\<lambda>i. params ! nat (sint i)) ixs' \<and>
           (\<forall>i\<in>set ixs'. 0 \<le> sint i \<and> sint i < int (length params))"
  using assms
proof (induction params sels lk "(ixs, vs)" arbitrary: ixs vs rule: selLoop.induct)
  case (1 params lk ixs vs)
  then show ?case by auto
next
  case (2 params sel rest lk ixs vs)
  show ?case
  proof (cases "IsAll sel")
    case True
    with "2.prems"(1) have g: "g = ReturnEarly False (map word_of_nat [0..<length params], params)"
      by simp
    have "\<forall>k<length params. sint (word_of_nat k :: goint) = int k"
      using "2.prems"(4) sint_word_of_nat64 by (meson less_trans)
    then have "params = map (\<lambda>i. params ! nat (sint i)) (map word_of_nat [0..<length params] :: goint list)"
      and "\<forall>i\<in>set (map word_of_nat [0..<length params] :: goint list). 0 \<le> sint i \<and> sint i < int (length params)"
      by (auto simp: map_nth intro!: nth_equalityI)
    with g show ?thesis by blast
  next
    case False
    note nall = this
    show ?thesis
    proof (cases "IsRange sel")
      case False
      note nrange = this
      show ?thesis
      proof (cases "GeoTileIdxSelector.Start sel")
        case None
        with nall nrange "2.prems"(1) show ?thesis by simp
      next
        case (Some idx)
        note st = this
        show ?thesis
        proof (cases "sint idx < 0 \<or> sint idx > int (length params) - 1")
          case True
          with nall nrange st "2.prems"(1) have "g = ReturnEarly True (ixs, vs)" by simp
          with "2.prems"(2,3) show ?thesis by blast
        next
          case False
          note inr = this
          show ?thesis
          proof (cases "found lk idx")
            case True
            with nall nrange st inr "2.prems"(1) have "selLoop params rest lk (ixs, vs) = Inr g" by simp
            from "2.hyps"(1) [OF nall _ st inr True this "2.prems"(2,3,4)] nrange show ?thesis by simp
          next
            case False
            with nall nrange st inr "2.prems"(1)
            have run: "selLoop params rest (insert (nat (sint idx)) lk) (ixs @ [idx], vs @ [params ! nat (sint idx)]) = Inr g"
              by simp
            have p1: "vs @ [params ! nat (sint idx)] = map (\<lambda>i. params ! nat (sint i)) (ixs @ [idx])"
              using "2.prems"(2) by simp
            have p2: "\<forall>i\<in>set (ixs @ [idx]). 0 \<le> sint i \<and> sint i < int (length params)"
              using "2.prems"(3) inr by auto
            from "2.hyps"(2) [OF nall _ st inr False run p1 p2 "2.prems"(4)] nrange show ?thesis by simp
          qed
        qed
      qed
    next
      case True
      note range = this
      define idxStart where "idxStart = (case GeoTileIdxSelector.Start sel of Some s \<Rightarrow> s | None \<Rightarrow> 0)"
      define idxEnd where "idxEnd = (case GeoTileIdxSelector.End sel of Some e \<Rightarrow> e
                      | None \<Rightarrow> word_of_int (int (length params) - 1))"
      define step where "step = (case Step sel of Some s \<Rightarrow> s | None \<Rightarrow> 1)"
      show ?thesis
      proof (cases "sint idxEnd > int (length params) - 1")
        case True
        with nall range "2.prems"(1) have "g = ReturnEarly True (ixs, vs)"
          by (simp add: idxEnd_def Let_def)
        with "2.prems"(2,3) show ?thesis by blast
      next
        case False
        note e1 = this
        show ?thesis
        proof (cases "idxEnd <s idxStart")
          case True
          with nall range e1 "2.prems"(1) show ?thesis
            by (simp add: idxEnd_def idxStart_def Let_def)
        next
          case False
          note e2 = this
          show ?thesis
          proof (cases "step <s 1")
            case True
            with nall range e1 e2 "2.prems"(1) show ?thesis
              by (simp add: idxEnd_def idxStart_def step_def Let_def)
          next
            case False
            note e3 = this
            show ?thesis
            proof (cases "rangeLoop params lk idxEnd step idxStart (ixs, vs)")
              case (Inl err)
              with nall range e1 e2 e3 "2.prems"(1) show ?thesis
                by (simp add: idxEnd_def idxStart_def step_def Let_def)
            next
              case (Inr acc)
              obtain ixs1 vs1 where acc: "acc = (ixs1, vs1)" by (cases acc)
              from Inr acc nall range e1 e2 e3 "2.prems"(1)
              have run: "selLoop params rest lk (ixs1, vs1) = Inr g"
                by (simp add: idxEnd_def idxStart_def step_def Let_def)
              from rangeLoop_paired [OF Inr [unfolded acc] "2.prems"(2,3)]
              have p1: "vs1 = map (\<lambda>i. params ! nat (sint i)) ixs1"
                and p2: "\<forall>i\<in>set ixs1. 0 \<le> sint i \<and> sint i < int (length params)" by simp_all
              show ?thesis
                by (rule "2.hyps"(3) [OF nall _ idxStart_def idxEnd_def e1 e2 step_def e3 Inr [unfolded acc] run p1 p2 "2.prems"(4)])
                   (simp add: range)
            qed
          qed
        qed
      qed
    qed
  qed
qed


lemma rangeLoop_closed:
  assumes "1 \<le> sint st" "0 \<le> sint idx" "sint e < int (length params)" "sint e + sint st < 2 ^ 63"
  shows "\<exists>L. rangeLoop params {} e st idx (ixs, vs) = Inr (ixs @ L, vs @ map (\<lambda>i. params ! nat (sint i)) L)
           \<and> map sint L = map (\<lambda>k. sint idx + int k * sint st)
                 [0..<(if sint idx \<le> sint e then nat ((sint e - sint idx) div sint st) + 1 else 0)]"
  using assms
proof (induction params "{} :: nat set" e st idx "(ixs, vs)" arbitrary: ixs vs rule: rangeLoop.induct)
  case (1 params e st idx ixs vs)
  have nf: "\<not> found {} idx" by (simp add: found_def)
  have st1: "1 \<le>s st" using "1.prems"(1) by (simp add: word_sle_eq)
  show ?case
  proof (cases "sint idx \<le> sint e")
    case False
    then have "rangeLoop params {} e st idx (ixs, vs) = Inr (ixs, vs)"
      by (subst rangeLoop.simps) (simp add: word_sle_eq)
    with False show ?thesis by simp
  next
    case True
    then have go: "1 \<le>s st \<and> idx \<le>s e" using st1 by (simp add: word_sle_eq)
    have inr: "0 \<le> sint idx \<and> sint idx < int (length params)"
      using True "1.prems"(2,3) by simp
    have nx: "sint (idx + st) = sint idx + sint st"
      using "1.prems" True by (intro sint_add_nowrap) auto
    have unf: "rangeLoop params {} e st idx (ixs, vs) =
         rangeLoop params {} e st (idx + st) (ixs @ [idx], vs @ [params ! nat (sint idx)])"
      using go nf inr by (subst rangeLoop.simps) simp
    have nn: "0 \<le> sint (idx + st)" using nx "1.prems"(1,2) by simp
    from "1.hyps"(2) [OF go nf inr "1.prems"(1) nn "1.prems"(3,4)]
    obtain L where
      run: "rangeLoop params {} e st (idx + st) (ixs @ [idx], vs @ [params ! nat (sint idx)]) =
          Inr ((ixs @ [idx]) @ L, (vs @ [params ! nat (sint idx)]) @ map (\<lambda>i. params ! nat (sint i)) L)"
      and L: "map sint L = map (\<lambda>k. sint (idx + st) + int k * sint st)
                 [0..<(if sint (idx + st) \<le> sint e then nat ((sint e - sint (idx + st)) div sint st) + 1 else 0)]"
      by blast
    define m' where "m' = (if sint (idx + st) \<le> sint e then nat ((sint e - sint (idx + st)) div sint st) + 1 else 0)"
    have mm: "nat ((sint e - sint idx) div sint st) = m'"
    proof (cases "sint (idx + st) \<le> sint e")
      case True
      have "sint st \<noteq> 0" using "1.prems"(1) by simp
      from div_add_self2 [OF this, of "sint e - sint idx - sint st"]
      have "(sint e - sint idx) div sint st = (sint e - sint idx - sint st) div sint st + 1"
        by simp
      moreover have "0 \<le> (sint e - sint idx - sint st) div sint st"
        using True nx "1.prems"(1) by (simp add: pos_imp_zdiv_nonneg_iff)
      ultimately show ?thesis using True nx by (simp add: m'_def nat_add_distrib algebra_simps)
    next
      case False
      then have "(sint e - sint idx) div sint st = 0"
        using nx \<open>sint idx \<le> sint e\<close> by (intro div_pos_pos_trivial) auto
      with False show ?thesis by (simp add: m'_def)
    qed
    have "map sint (idx # L) = map (\<lambda>k. sint idx + int k * sint st) [0..<Suc m']"
    proof -
      have "map (\<lambda>k. sint idx + int k * sint st) [0..<Suc m'] =
            sint idx # map (\<lambda>k. sint idx + int (Suc k) * sint st) [0..<m']"
        by (simp add: upt_conv_Cons map_Suc_upt [symmetric] del: upt_Suc)
      also have "map (\<lambda>k. sint idx + int (Suc k) * sint st) [0..<m'] =
            map (\<lambda>k. sint (idx + st) + int k * sint st) [0..<m']"
        by (simp add: nx algebra_simps)
      finally show ?thesis using L by (simp add: m'_def)
    qed
    with unf run mm True show ?thesis
      by (intro exI [of _ "idx # L"]) simp
  qed
qed

lemma argSort_eq:
  "argSort ixs = sortSlice (\<lambda>a b. (sint \<circ> snd) a \<le> (sint \<circ> snd) b) (zip [0..<length ixs] ixs)"
  by (simp add: argSort_def word_sle_eq)

lemma argSort_sorted: "sorted (map sint (map snd (argSort ixs)))"
  using sortSlice_sorted [of "sint \<circ> snd" "zip [0..<length ixs] ixs"]
  by (simp add: argSort_eq)

lemma argSort_mset_zip: "mset (argSort ixs) = mset (zip [0..<length ixs] ixs)"
  unfolding argSort_eq by (rule sortSlice_mset)

lemma argSort_mset: "mset (map snd (argSort ixs)) = mset ixs"
proof -
  have "mset (map snd (argSort ixs)) = mset (map snd (zip [0..<length ixs] ixs))"
    using argSort_mset_zip [of ixs] by (metis mset_map)
  then show ?thesis by simp
qed

lemma argSort_values:
  assumes "vs = map f ixs"
  shows "map (\<lambda>arg. vs ! fst arg) (argSort ixs) = map f (map snd (argSort ixs))"
proof -
  have "set (argSort ixs) = set (zip [0..<length ixs] ixs)"
    using argSort_mset_zip [of ixs] by (rule mset_eq_setD)
  then have "\<forall>arg\<in>set (argSort ixs). vs ! fst arg = f (snd arg)"
    using assms by (auto simp: set_zip)
  then show ?thesis by simp
qed

lemma argSort_sorted_id:
  assumes "sorted (map sint ixs)"
  shows "map snd (argSort ixs) = ixs"
proof -
  have "mset (map sint (map snd (argSort ixs))) = mset (map sint ixs)"
    using argSort_mset [of ixs] by (metis mset_map)
  then have "map sint (map snd (argSort ixs)) = map sint ixs"
    using argSort_sorted [of ixs] assms by (metis properties_for_sort)
  moreover have "inj (sint :: goint \<Rightarrow> int)" by (auto simp: inj_on_def intro: signed_word_eqI)
  ultimately show ?thesis by (metis inj_map_eq_map)
qed

lemma selLoop_ReturnEarly_False:
  "selLoop params sels lk acc = Inr (ReturnEarly False r) \<Longrightarrow>
   r = (map word_of_nat [0..<length params], params)"
  by (induction params sels lk acc rule: selLoop.induct)
     (auto simp: Let_def split: if_splits option.splits sum.splits)

lemma sorted_word_of_nat_upt:
  assumes "n < 2 ^ 63"
  shows "sorted (map sint (map word_of_nat [0..<n] :: goint list))"
proof -
  have "map sint (map word_of_nat [0..<n] :: goint list) = map int [0..<n]"
    using assms sint_word_of_nat64 by (auto intro: less_trans)
  moreover have "sorted (map int [0..<n])" by (simp add: sorted_map)
  ultimately show ?thesis by (simp only:)
qed

lemma doSelectionByIndices_Finished:
  assumes "Grid axis = ''enum''"
    and "selLoop (Params axis) (IdxSelectors tileAxis) {} (IntersectionIdx axis, IntersectionValues axis)
           = Inr (Finished (ixs, vs))"
    and "length vs = length ixs"
  shows "doSelectionByIndices fzero axis tileAxis =
     Inr (False, axis\<lparr>IntersectionIdx := map snd (argSort ixs),
                      IntersectionValues := map (\<lambda>arg. vs ! fst arg) (argSort ixs)\<rparr>)"
  using assms by (simp add: doSelectionByIndices_def Let_def)

lemma doSelectionByIndices_sorted_paired:
  fixes axis :: "'v DatasetAxis"
  assumes "IntersectionIdx axis = []" "IntersectionValues axis = []"
    and "length (Params axis) < 2 ^ 63"
    and "doSelectionByIndices fzero axis tileAxis = Inr (False, axis')"
  shows "sorted (map sint (IntersectionIdx axis')) \<and>
         IntersectionValues axis' = map (\<lambda>i. Params axis ! nat (sint i)) (IntersectionIdx axis') \<and>
         (\<forall>i\<in>set (IntersectionIdx axis'). 0 \<le> sint i \<and> sint i < int (length (Params axis)))"
proof -
  let ?f = "\<lambda>i :: goint. Params axis ! nat (sint i)"
  from assms(4) have enum: "Grid axis = ''enum''"
    by (auto simp: doSelectionByIndices_def split: if_splits)
  from assms(4) enum obtain g where
    g: "selLoop (Params axis) (IdxSelectors tileAxis) {} ([], []) = Inr g"
    by (cases "selLoop (Params axis) (IdxSelectors tileAxis) {} ([], [] :: 'v list)")
       (auto simp: doSelectionByIndices_def assms(1,2))
  from selLoop_paired [OF g _ _ assms(3)]
  obtain b ixs vs where gg: "g = ReturnEarly b (ixs, vs) \<or> g = Finished (ixs, vs)"
    and p1: "vs = map ?f ixs"
    and p2: "\<forall>i\<in>set ixs. 0 \<le> sint i \<and> sint i < int (length (Params axis))"
    by auto
  from gg show ?thesis
  proof
    assume re: "g = ReturnEarly b (ixs, vs)"
    with g assms(1,2,4) enum have b: "b = False"
      and ax: "axis' = axis\<lparr>IntersectionIdx := ixs, IntersectionValues := vs\<rparr>"
      by (auto simp: doSelectionByIndices_def)
    from selLoop_ReturnEarly_False [OF g [unfolded re b]]
    have srt: "sorted (map sint ixs)"
      using sorted_word_of_nat_upt [OF assms(3)] by simp
    with ax p1 p2 show ?thesis by simp
  next
    assume fin: "g = Finished (ixs, vs)"
    have len: "length vs = length ixs" using p1 by simp
    from doSelectionByIndices_Finished [OF enum _ len, of tileAxis fzero] g fin assms(1,2,4)
    have ax: "axis' = axis\<lparr>IntersectionIdx := map snd (argSort ixs),
                      IntersectionValues := map (\<lambda>arg. vs ! fst arg) (argSort ixs)\<rparr>"
      by simp
    have "set (map snd (argSort ixs)) = set ixs"
      using argSort_mset [of ixs] by (rule mset_eq_setD)
    with p2 have r: "\<forall>i\<in>set (map snd (argSort ixs)). 0 \<le> sint i \<and> sint i < int (length (Params axis))"
      by simp
    show ?thesis
      using argSort_sorted [of ixs] argSort_values [OF p1] r by (simp add: ax)
  qed
qed

lemma sint_word_of_int64:
  assumes "- 1 \<le> k" "k < 2 ^ 63"
  shows "sint (word_of_int k :: goint) = k"
proof -
  have "sint (word_of_int k :: goint) = signed_take_bit 63 k"
    by (simp add: signed_of_int)
  also have "\<dots> = k"
    using assms by (intro signed_take_bit_int_eq_self) auto
  finally show ?thesis .
qed

lemma sorted_arith_progression:
  assumes "1 \<le> (st :: int)"
  shows "sorted (map (\<lambda>k. s + int k * st) [0..<m])"
proof -
  have "sorted_wrt (\<lambda>x y. s + int x * st \<le> s + int y * st) [0..<m]"
  proof (rule sorted_wrt_mono_rel [of _ "(\<le>)"])
    fix x y :: nat assume "x \<le> y"
    then have "int x * st \<le> int y * st" using assms by (intro mult_right_mono) auto
    then show "s + int x * st \<le> s + int y * st" by simp
  next
    show "sorted_wrt (\<le>) [0..<m]" by simp
  qed
  then show ?thesis by (simp add: sorted_map)
qed

text \<open>
  C5 (as amended). For a single index-range selector on an axis with an \<open>enum\<close> grid and
  nothing selected yet, with \<open>start\<close>, \<open>end\<close> and \<open>step\<close> defaulting to 0,
  \<open>len(params) - 1\<close> and 1: when \<open>end\<close> exceeds \<open>len(params) - 1\<close> the selection
  flags \<open>outRange\<close> and selects nothing; otherwise it fails when \<open>start > end\<close>, and
  otherwise when \<open>step < 1\<close>; otherwise, for \<open>start \<ge> 0\<close> and \<open>end + step\<close> within the
  64-bit integers, it selects exactly the indices \<open>start, start + step, \<dots>\<close> up to
  \<open>end\<close> with their parameter values. Whatever the selectors are, a selection that
  returns without \<open>outRange\<close> leaves the indices sorted ascending, each in range and
  paired with its parameter value.
\<close>

theorem doSelectionByIndices_range:
  fixes axis :: "'v DatasetAxis"
  assumes enum: "Grid axis = ''enum''"
    and empty: "IntersectionIdx axis = []" "IntersectionValues axis = []"
    and len: "length (Params axis) < 2 ^ 63"
    and sel: "IsRange sel" "\<not> IsAll sel" "IdxSelectors tileAxis = [sel]"
  defines "n \<equiv> int (length (Params axis))"
  defines "s \<equiv> (case GeoTileIdxSelector.Start sel of Some a \<Rightarrow> sint a | None \<Rightarrow> 0)"
    and "e \<equiv> (case GeoTileIdxSelector.End sel of Some a \<Rightarrow> sint a | None \<Rightarrow> n - 1)"
    and "st \<equiv> (case Step sel of Some a \<Rightarrow> sint a | None \<Rightarrow> 1)"
  shows "(e > n - 1 \<longrightarrow> doSelectionByIndices fzero axis tileAxis = Inr (True, axis))
    \<and> (e \<le> n - 1 \<and> s > e \<longrightarrow> doSelectionByIndices fzero axis tileAxis = Inl StartAfterEnd)
    \<and> (e \<le> n - 1 \<and> s \<le> e \<and> st < 1 \<longrightarrow> doSelectionByIndices fzero axis tileAxis = Inl StepBelowOne)
    \<and> (e \<le> n - 1 \<and> 0 \<le> s \<and> s \<le> e \<and> 1 \<le> st \<and> e + st < 2 ^ 63 \<longrightarrow>
         doSelectionByIndices fzero axis tileAxis =
           Inr (False, axis\<lparr>
             IntersectionIdx := map (\<lambda>k. word_of_int (s + int k * st)) [0..<nat ((e - s) div st) + 1],
             IntersectionValues := map (\<lambda>k. Params axis ! nat (s + int k * st)) [0..<nat ((e - s) div st) + 1]\<rparr>))
    \<and> (\<forall>tileAxis' axis'. doSelectionByIndices fzero axis tileAxis' = Inr (False, axis') \<longrightarrow>
           sorted (map sint (IntersectionIdx axis')) \<and>
           IntersectionValues axis' = map (\<lambda>i. Params axis ! nat (sint i)) (IntersectionIdx axis') \<and>
           (\<forall>i\<in>set (IntersectionIdx axis'). 0 \<le> sint i \<and> sint i < n))"
proof -
  let ?params = "Params axis"
  let ?f = "\<lambda>i :: goint. ?params ! nat (sint i)"
  define idxStart :: goint where "idxStart = (case GeoTileIdxSelector.Start sel of Some a \<Rightarrow> a | None \<Rightarrow> 0)"
  define idxEnd :: goint where "idxEnd = (case GeoTileIdxSelector.End sel of Some a \<Rightarrow> a
                      | None \<Rightarrow> word_of_int (int (length ?params) - 1))"
  define step :: goint where "step = (case Step sel of Some a \<Rightarrow> a | None \<Rightarrow> 1)"
  have s: "s = sint idxStart" by (simp add: s_def idxStart_def split: option.splits)
  have e: "e = sint idxEnd"
    using len sint_word_of_int64 [of "int (length ?params) - 1"]
    by (simp add: e_def idxEnd_def n_def split: option.splits)
  have st: "st = sint step" by (simp add: st_def step_def split: option.splits)
  have unf: "selLoop ?params [sel] {} ([], []) =
      (if sint idxEnd > n - 1 then Inr (ReturnEarly True ([], []))
       else if idxEnd <s idxStart then Inl StartAfterEnd
       else if step <s 1 then Inl StepBelowOne
       else (case rangeLoop ?params {} idxEnd step idxStart ([], []) of
               Inl err \<Rightarrow> Inl err
             | Inr acc \<Rightarrow> Inr (Finished acc)))"
    using sel(1,2)
    by (auto simp: Let_def idxStart_def idxEnd_def step_def n_def split: sum.splits)
  have ds: "doSelectionByIndices fzero axis tileAxis =
      (case selLoop ?params [sel] {} ([], []) of
           Inl err \<Rightarrow> Inl err
         | Inr (ReturnEarly outRange (ixs, vs)) \<Rightarrow>
             Inr (outRange, axis\<lparr>IntersectionIdx := ixs, IntersectionValues := vs\<rparr>)
         | Inr (Finished (ixs, vs)) \<Rightarrow>
             if length ixs > length vs then Inl RuntimePanic
             else
               let argSortIdx = argSort ixs;
                   newIntersectionIdx = map snd argSortIdx;
                   newIntersectionValues =
                     map (\<lambda>arg. vs ! fst arg) argSortIdx @ replicate (length vs - length ixs) fzero
               in Inr (False, axis\<lparr>IntersectionIdx := newIntersectionIdx,
                                   IntersectionValues := newIntersectionValues\<rparr>))"
    by (simp add: doSelectionByIndices_def enum empty sel(3))
  have same: "axis\<lparr>IntersectionIdx := [], IntersectionValues := []\<rparr> = axis"
    using empty by simp
  have a: "e > n - 1 \<longrightarrow> doSelectionByIndices fzero axis tileAxis = Inr (True, axis)"
    by (simp add: ds unf e same del: selLoop.simps)
  have b: "e \<le> n - 1 \<and> s > e \<longrightarrow> doSelectionByIndices fzero axis tileAxis = Inl StartAfterEnd"
    by (simp add: ds unf e s word_sless_alt del: selLoop.simps)
  have c: "e \<le> n - 1 \<and> s \<le> e \<and> st < 1 \<longrightarrow> doSelectionByIndices fzero axis tileAxis = Inl StepBelowOne"
    by (simp add: ds unf e s st word_sless_alt del: selLoop.simps)
  have d: "e \<le> n - 1 \<and> 0 \<le> s \<and> s \<le> e \<and> 1 \<le> st \<and> e + st < 2 ^ 63 \<longrightarrow>
         doSelectionByIndices fzero axis tileAxis =
           Inr (False, axis\<lparr>
             IntersectionIdx := map (\<lambda>k. word_of_int (s + int k * st)) [0..<nat ((e - s) div st) + 1],
             IntersectionValues := map (\<lambda>k. Params axis ! nat (s + int k * st)) [0..<nat ((e - s) div st) + 1]\<rparr>)"
  proof
    assume h: "e \<le> n - 1 \<and> 0 \<le> s \<and> s \<le> e \<and> 1 \<le> st \<and> e + st < 2 ^ 63"
    let ?m = "nat ((e - s) div st) + 1"
    have h1: "1 \<le> sint step" "0 \<le> sint idxStart" "sint idxEnd < int (length ?params)"
      "sint idxEnd + sint step < 2 ^ 63"
      using h by (simp_all add: s e st n_def)
    from rangeLoop_closed [OF h1, of "[]" "[]"] h
    obtain L where run: "rangeLoop ?params {} idxEnd step idxStart ([], []) = Inr (L, map ?f L)"
      and L: "map sint L = map (\<lambda>k. s + int k * st) [0..<?m]"
      by (auto simp: s e st)
    have Lw: "L = map (\<lambda>k. word_of_int (s + int k * st)) [0..<?m]"
    proof -
      have "L = map word_of_int (map sint L)" by (simp add: map_idI)
      then show ?thesis by (simp add: L)
    qed
    have srt: "sorted (map sint L)"
      unfolding L using h by (intro sorted_arith_progression) simp
    have fin: "selLoop ?params (IdxSelectors tileAxis) {} (IntersectionIdx axis, IntersectionValues axis)
        = Inr (Finished (L, map ?f L))"
      using h run by (simp add: sel(3) empty unf e s st word_sless_alt del: selLoop.simps)
    have vals: "map ?f L = map (\<lambda>k. ?params ! nat (s + int k * st)) [0..<?m]"
    proof -
      have "map ?f L = map (\<lambda>j. ?params ! nat j) (map sint L)" by simp
      then show ?thesis by (simp add: L)
    qed
    from doSelectionByIndices_Finished [OF enum fin, of fzero]
    have "doSelectionByIndices fzero axis tileAxis =
        Inr (False, axis\<lparr>IntersectionIdx := L, IntersectionValues := map ?f L\<rparr>)"
      using argSort_sorted_id [OF srt] argSort_values [of "map ?f L" ?f L] by simp
    then show "doSelectionByIndices fzero axis tileAxis =
           Inr (False, axis\<lparr>
             IntersectionIdx := map (\<lambda>k. word_of_int (s + int k * st)) [0..<?m],
             IntersectionValues := map (\<lambda>k. Params axis ! nat (s + int k * st)) [0..<?m]\<rparr>)"
      using Lw vals by simp
  qed
  have g: "\<forall>tileAxis' axis'. doSelectionByIndices fzero axis tileAxis' = Inr (False, axis') \<longrightarrow>
           sorted (map sint (IntersectionIdx axis')) \<and>
           IntersectionValues axis' = map (\<lambda>i. Params axis ! nat (sint i)) (IntersectionIdx axis') \<and>
           (\<forall>i\<in>set (IntersectionIdx axis'). 0 \<le> sint i \<and> sint i < n)"
    using doSelectionByIndices_sorted_paired [OF empty len] unfolding n_def by blast
  from a b c d g show ?thesis by blast
qed

theorem doSelectionByIndices_range_witness:
  "doSelectionByIndices (0::int)
     \<lparr>Name = ''depth'', Params = [10, 20, 30, 40, 50, 60, 70, 80], Strides = [1], Shape = [8],
      Grid = ''enum'', IntersectionIdx = [], IntersectionValues = [], Order = 0, Aggregate = 0\<rparr>
     \<lparr>GeoTileAxis.Start = None, End = None, InValues = [], Order = 0, Aggregate = 0,
      IdxSelectors = [\<lparr>GeoTileIdxSelector.Start = Some 0, End = Some 6, Step = Some 2,
                        IsRange = True, IsAll = False\<rparr>]\<rparr>
   = Inr (False,
     \<lparr>Name = ''depth'', Params = [10, 20, 30, 40, 50, 60, 70, 80], Strides = [1], Shape = [8],
      Grid = ''enum'', IntersectionIdx = [0, 2, 4, 6], IntersectionValues = [10, 30, 50, 70],
      Order = 0, Aggregate = 0\<rparr>)"
proof -
  let ?axis = "\<lparr>Name = ''depth'', Params = [10, 20, 30, 40, 50, 60, 70, 80 :: int], Strides = [1], Shape = [8],
      Grid = ''enum'', IntersectionIdx = [], IntersectionValues = [], Order = 0, Aggregate = 0\<rparr>"
  let ?sel = "\<lparr>GeoTileIdxSelector.Start = Some 0, End = Some 6, Step = Some 2,
                        IsRange = True, IsAll = False\<rparr>"
  let ?tileAxis = "\<lparr>GeoTileAxis.Start = None, End = None, InValues = [] :: int list, Order = 0, Aggregate = 0,
      IdxSelectors = [?sel]\<rparr>"
  have up: "[0..<4] = [0, 1, 2, 3]" by (simp add: upt_rec)
  have "Grid ?axis = ''enum''" "IntersectionIdx ?axis = []" "IntersectionValues ?axis = []"
    "length (Params ?axis) < 2 ^ 63" "IsRange ?sel" "\<not> IsAll ?sel" "IdxSelectors ?tileAxis = [?sel]"
    by simp_all
  from doSelectionByIndices_range [OF this, of 0]
  show ?thesis by (simp add: up)
qed

text \<open>The selector \<open>{start = 9, end = 8}\<close> on eight parameters has \<open>start > end\<close>; the
  selection returns no error: the check of \<open>end\<close> against the axis comes first and flags
  \<open>outRange\<close>.\<close>

theorem doSelectionByIndices_start_after_end_counterexample:
  "sint (8 :: goint) < sint (9 :: goint) \<and>
   doSelectionByIndices (0::int)
     \<lparr>Name = ''depth'', Params = [10, 20, 30, 40, 50, 60, 70, 80], Strides = [1], Shape = [8],
      Grid = ''enum'', IntersectionIdx = [], IntersectionValues = [], Order = 0, Aggregate = 0\<rparr>
     \<lparr>GeoTileAxis.Start = None, End = None, InValues = [], Order = 0, Aggregate = 0,
      IdxSelectors = [\<lparr>GeoTileIdxSelector.Start = Some 9, End = Some 8, Step = None,
                        IsRange = True, IsAll = False\<rparr>]\<rparr>
   = Inr (True,
     \<lparr>Name = ''depth'', Params = [10, 20, 30, 40, 50, 60, 70, 80], Strides = [1], Shape = [8],
      Grid = ''enum'', IntersectionIdx = [], IntersectionValues = [], Order = 0, Aggregate = 0\<rparr>)"
  by (simp add: doSelectionByIndices_def)

subsection \<open>The Run loop\<close>

lemma length_shuffleFrom: "length (shuffleFrom r i xs) = length xs"
  by (induction r i xs rule: shuffleFrom.induct) (simp_all add: Let_def)

lemma length_shuffle: "length (shuffle r xs) = length xs"
  by (simp add: shuffle_def length_shuffleFrom)

lemma tileSize_pos: "0 < tileSize lib f"
  by (simp add: tileSize_def Let_def)

lemma steps_nonempty: "0 < m \<Longrightarrow> steps 256 m 0 \<noteq> []"
  by (subst steps.simps) simp

lemma subTiles_nonempty:
  assumes "0 < mx" "0 < my"
  shows "subTiles c mx my \<noteq> []"
proof -
  obtain x xs where xs: "steps 256 mx 0 = x # xs"
    using steps_nonempty [OF assms(1)] by (cases "steps 256 mx 0") auto
  obtain y ys where ys: "steps 256 my 0 = y # ys"
    using steps_nonempty [OF assms(2)] by (cases "steps 256 my 0") auto
  show ?thesis by (simp add: subTiles_def Let_def xs ys)
qed

lemma mainQueries_spawns:
  assumes "mainQueries lib geoReq isEmptyTile url ext = (spawned, w)"
  shows "spawned \<noteq> [] \<and> (\<forall>ev\<in>set spawned. \<exists>q l. ev = Spawn q isEmptyTile l)"
proof (cases "\<exists>c. ext = Clipped c \<and> sint (QueryLimit (GeoTileRequest.ConfigPayLoad geoReq)) \<le> 0 \<and>
     max ((c ! 2 - c ! 0) / 256) ((c ! 3 - c ! 1) / 256) > IndexResLimit (GeoTileRequest.ConfigPayLoad geoReq)")
  case True
  then obtain c where c: "ext = Clipped c" "sint (QueryLimit (GeoTileRequest.ConfigPayLoad geoReq)) \<le> 0"
     "max ((c ! 2 - c ! 0) / 256) ((c ! 3 - c ! 1) / 256) > IndexResLimit (GeoTileRequest.ConfigPayLoad geoReq)"
    by blast
  let ?cfg = "GeoTileRequest.ConfigPayLoad geoReq"
  let ?tiles = "subTiles c (tileSize lib (IndexTileXSize ?cfg)) (tileSize lib (IndexTileYSize ?cfg))"
  let ?urls = "map (\<lambda>bbox. url\<lparr>qSRS := ''EPSG:3857'', qWkt := Some bbox\<rparr>) ?tiles"
  from assms c have sp: "spawned = map (\<lambda>u. Spawn u isEmptyTile True) (shuffle (randInt lib) ?urls)"
    by (simp add: mainQueries_def Let_def)
  have "?tiles \<noteq> []" by (rule subTiles_nonempty) (rule tileSize_pos)+
  then have "length (shuffle (randInt lib) ?urls) \<noteq> 0" by (simp add: length_shuffle)
  then have "spawned \<noteq> []" unfolding sp by simp
  moreover have "\<forall>ev\<in>set spawned. \<exists>q l. ev = Spawn q isEmptyTile l" unfolding sp by auto
  ultimately show ?thesis by blast
next
  case False
  with assms have "spawned = [Spawn url isEmptyTile False]"
    by (auto simp: mainQueries_def Let_def split: extent.splits if_splits)
  then show ?thesis by auto
qed

lemma maskQuery_spawns:
  "\<forall>ev\<in>set (maskQuery geoReq isEmptyTile nameSpaces url w). \<exists>q l. ev = Spawn q isEmptyTile l"
  by (auto simp: maskQuery_def Let_def split: option.splits)

lemma resolveTime_same:
  "GeoTileRequest.ConfigPayLoad (resolveTime lib geoReq) = GeoTileRequest.ConfigPayLoad geoReq"
  "GeoTileRequest.CRS (resolveTime lib geoReq) = GeoTileRequest.CRS geoReq"
  "GeoTileRequest.BBox (resolveTime lib geoReq) = GeoTileRequest.BBox geoReq"
  "Collection (resolveTime lib geoReq) = Collection geoReq"
  by (auto simp: resolveTime_def Let_def split: option.splits list.splits prod.splits)

text \<open>
  C2. When the collection of a request is empty after trimming white space, and the
  \<^verbatim>\<open>select\<close> statement finds neither a cancellation nor a pending error, \<^verbatim>\<open>Run\<close> sends
  exactly one granule downstream and returns, closing its output, without starting any
  metadata query: the trace has no \<open>Spawn\<close>. The granule is the empty tile: path
  \<^verbatim>\<open>"NULL"\<close>, the empty-tile namespace, raster type \<^verbatim>\<open>"Byte"\<close>, and the width and height of
  the request.
\<close>

theorem Run_empty_collection:
  assumes "TrimSpace (Collection geoReq) = []"
    and "sel i = NothingPending"
  shows "Run lib sel i (geoReq # rest) = [Did (Emit (emptyTile lib geoReq)), CloseOut]
       \<and> Path (emptyTile lib geoReq) = ''NULL''
       \<and> GeoTileGranule.NameSpace (emptyTile lib geoReq) = EmptyTileNS lib
       \<and> NameSpaces (GeoTileGranule.ConfigPayLoad (emptyTile lib geoReq)) = [EmptyTileNS lib]
       \<and> RasterType (emptyTile lib geoReq) = ''Byte''
       \<and> GeoTileGranule.Width (emptyTile lib geoReq) = GeoTileRequest.Width geoReq
       \<and> GeoTileGranule.Height (emptyTile lib geoReq) = GeoTileRequest.Height geoReq"
  using assms by (simp add: Run_request_def emptyTile_def)

theorem Run_empty_collection_witness:
  "TrimSpace (Collection (demoRequest '' '' [20, 20, 30, 30] [])) = []
   \<and> Run demoLib (\<lambda>i. NothingPending :: unit found_by_select) 0 [demoRequest '' '' [20, 20, 30, 30] []]
       = [Did (Emit (emptyTile demoLib (demoRequest '' '' [20, 20, 30, 30] []))), CloseOut]
   \<and> GeoTileGranule.Width (emptyTile demoLib (demoRequest '' '' [20, 20, 30, 30] [])) = 256"
proof -
  have h: "TrimSpace (Collection (demoRequest '' '' [20, 20, 30, 30] [])) = []"
    by (simp add: demoRequest_def TrimSpace_def trimBy.simps leading_def spaces_def)
  have w: "GeoTileRequest.Width (demoRequest '' '' [20, 20, 30, 30] []) = 256"
    by (simp add: demoRequest_def)
  from Run_empty_collection [OF h, of "\<lambda>i. NothingPending :: unit found_by_select" 0 demoLib "[]"]
  have a: "Run demoLib (\<lambda>i. NothingPending :: unit found_by_select) 0 [demoRequest '' '' [20, 20, 30, 30] []]
       = [Did (Emit (emptyTile demoLib (demoRequest '' '' [20, 20, 30, 30] []))), CloseOut]"
    and b: "GeoTileGranule.Width (emptyTile demoLib (demoRequest '' '' [20, 20, 30, 30] []))
       = GeoTileRequest.Width (demoRequest '' '' [20, 20, 30, 30] [])"
    by blast+
  from h a b [unfolded w] show ?thesis by blast
qed

text \<open>The same request when the \<^verbatim>\<open>select\<close> statement finds the context cancelled, or an
  error pending: \<^verbatim>\<open>Run\<close> passes the error on and returns, and sends no granule.\<close>

theorem Run_empty_collection_cancelled_counterexample:
  "TrimSpace (Collection (demoRequest '' '' [20, 20, 30, 30] [])) = []
   \<and> Run demoLib (\<lambda>i. ContextDone ''context canceled'') 0 [demoRequest '' '' [20, 20, 30, 30] []]
       = [SendError ''context canceled'', CloseOut]
   \<and> Run demoLib (\<lambda>i. ErrorPending ''pending'') 0 [demoRequest '' '' [20, 20, 30, 30] []]
       = [SendError ''pending'', CloseOut]"
  by (simp add: demoRequest_def TrimSpace_def trimBy.simps leading_def spaces_def)

lemma clipped_nth:
  assumes "\<not> length box < 4"
  shows "box[0 := a, 1 := b, 2 := c, 3 := d] ! 0 = a"
    "box[0 := a, 1 := b, 2 := c, 3 := d] ! 1 = b"
    "box[0 := a, 1 := b, 2 := c, 3 := d] ! 2 = c"
    "box[0 := a, 1 := b, 2 := c, 3 := d] ! 3 = d"
    "box[0 := a] ! 0 = a"
proof -
  from assms obtain x0 x1 x2 x3 rest where "box = x0 # x1 # x2 # x3 # rest"
    by (cases box; cases "tl box"; cases "tl (tl box)"; cases "tl (tl (tl box))") auto
  then show "box[0 := a, 1 := b, 2 := c, 3 := d] ! 0 = a"
    "box[0 := a, 1 := b, 2 := c, 3 := d] ! 1 = b"
    "box[0 := a, 1 := b, 2 := c, 3 := d] ! 2 = c"
    "box[0 := a, 1 := b, 2 := c, 3 := d] ! 3 = d"
    "box[0 := a] ! 0 = a"
    by (simp_all add: numeral_2_eq_2 numeral_3_eq_3)
qed

text \<open>
  C10. For a request with a collection that \<^verbatim>\<open>Run\<close> handles without a panic: \<^verbatim>\<open>Run\<close> returns
  after the request exactly when the spatial extent has at least four numbers, the
  canonical bounding box is obtained, and the clipped box is strictly inverted
  (\<open>xmax < xmin\<close> or \<open>ymax < ymin\<close>); it then has sent the empty tile and nothing else.
  Otherwise, in particular when the clipped box has a width or height of exactly zero,
  it has started at least one metadata query and has sent no granule itself.
\<close>

theorem Run_spatial_check:
  fixes geoReq0 :: "('v::linorder, 't) GeoTileRequest"
  assumes nonempty: "TrimSpace (Collection geoReq0) \<noteq> []"
    and run: "Run_request lib geoReq0 = Inr (events, geoReq, returns)"
  defines "ext \<equiv> SpatialExtent (GeoTileRequest.ConfigPayLoad geoReq0)"
  shows "(returns \<longleftrightarrow>
            length ext \<ge> 4 \<and>
            (\<exists>box. GetCanonicalBbox lib (GeoTileRequest.CRS geoReq0) (GeoTileRequest.BBox geoReq0)
                     = Inr (Canonical box) \<and>
                   (min (box ! 2) (ext ! 2) < max (box ! 0) (ext ! 0) \<or>
                    min (box ! 3) (ext ! 3) < max (box ! 1) (ext ! 1))))
       \<and> (returns \<longrightarrow> events = [Emit (emptyTile lib geoReq)])
       \<and> (\<not> returns \<longrightarrow> events \<noteq> [] \<and> (\<forall>ev\<in>set events. \<exists>q e l. ev = Spawn q e l))"
proof -
  define geoReq1 where "geoReq1 = resolveTime lib geoReq0"
  define cfg1 where "cfg1 = GeoTileRequest.ConfigPayLoad geoReq1"
  define geoReq2 where "geoReq2 = (if length (NameSpaces cfg1) = 0
                      then geoReq1\<lparr>GeoTileRequest.ConfigPayLoad := cfg1\<lparr>NameSpaces := [[]]\<rparr>\<rparr>
                      else geoReq1)"
  define cfg where "cfg = GeoTileRequest.ConfigPayLoad geoReq2"
  define isEmptyTile where "isEmptyTile = (hd (NameSpaces cfg) = EmptyTileNS lib)"
  define nameSpaces where "nameSpaces = (if isEmptyTile then [] else Join (NameSpaces cfg) '','')"
  have same: "SpatialExtent (GeoTileRequest.ConfigPayLoad geoReq2) = ext"
    "GeoTileRequest.CRS geoReq2 = GeoTileRequest.CRS geoReq0"
    "GeoTileRequest.BBox geoReq2 = GeoTileRequest.BBox geoReq0"
    by (simp_all add: geoReq2_def geoReq1_def cfg1_def ext_def resolveTime_same)
  from run nonempty obtain bboxWkt url chk where
    url: "getIndexerURL geoReq2 nameSpaces bboxWkt (GeoTileRequest.CRS geoReq2) = Inr url"
    and chk: "spatialCheck lib geoReq2 = Inr chk"
    and res: "(case chk of
                 Inverted \<Rightarrow> Inr ([Emit (emptyTile lib geoReq2)], geoReq2, True)
               | _ \<Rightarrow> (let (spawned, bboxWkt') = mainQueries lib geoReq2 isEmptyTile url chk
                       in Inr (spawned @ maskQuery geoReq2 isEmptyTile nameSpaces url bboxWkt',
                               geoReq2, False))) = (Inr (events, geoReq, returns) :: run_panic + _)"
    unfolding Run_request_def Let_def
    by (fold geoReq1_def, fold cfg1_def, fold geoReq2_def, fold cfg_def, fold isEmptyTile_def,
        fold nameSpaces_def)
       (auto split: sum.splits if_splits extent.splits)
  have inv: "chk = Inverted \<longleftrightarrow>
            length ext \<ge> 4 \<and>
            (\<exists>box. GetCanonicalBbox lib (GeoTileRequest.CRS geoReq0) (GeoTileRequest.BBox geoReq0)
                     = Inr (Canonical box) \<and>
                   (min (box ! 2) (ext ! 2) < max (box ! 0) (ext ! 0) \<or>
                    min (box ! 3) (ext ! 3) < max (box ! 1) (ext ! 1)))"
  proof (cases "length ext \<ge> 4")
    case False
    with chk show ?thesis by (simp add: spatialCheck_def Let_def same)
  next
    case True
    note long = this
    show ?thesis
    proof (cases "GetCanonicalBbox lib (GeoTileRequest.CRS geoReq0) (GeoTileRequest.BBox geoReq0)")
      case (Inl p)
      with chk long show ?thesis by (simp add: spatialCheck_def Let_def same)
    next
      case (Inr c)
      show ?thesis
      proof (cases c)
        case CanonicalError
        with chk long Inr show ?thesis by (auto simp: spatialCheck_def Let_def same)
      next
        case (Canonical box)
        with chk long Inr have nb: "\<not> length box < 4"
          by (auto simp: spatialCheck_def Let_def same split: if_splits)
        from chk long Inr Canonical nb show ?thesis
          by (auto simp add: spatialCheck_def Let_def same clipped_nth [OF nb] split: if_splits)
      qed
    qed
  qed
  show ?thesis
  proof (cases "chk = Inverted")
    case True
    with res have "events = [Emit (emptyTile lib geoReq2)]" "geoReq = geoReq2" "returns" by auto
    with inv True show ?thesis by simp
  next
    case False
    obtain spawned w where mq: "mainQueries lib geoReq2 isEmptyTile url chk = (spawned, w)"
      by (cases "mainQueries lib geoReq2 isEmptyTile url chk")
    from False res mq have ev: "events = spawned @ maskQuery geoReq2 isEmptyTile nameSpaces url w"
      and nr: "\<not> returns"
      by (auto split: extent.splits)
    from mainQueries_spawns [OF mq] maskQuery_spawns [of geoReq2 isEmptyTile nameSpaces url w]
    have "events \<noteq> [] \<and> (\<forall>ev\<in>set events. \<exists>q e l. ev = Spawn q e l)"
      unfolding ev by auto
    with inv False nr show ?thesis by simp
  qed
qed

lemma TrimSpace_landsat: "TrimSpace ''landsat'' = ''landsat''"
  by (simp add: TrimSpace_def trimBy.simps leading_def spaces_def)

lemma TrimSpace_EPSG: "TrimSpace ''EPSG:3857'' = ''EPSG:3857''"
  by (simp add: TrimSpace_def trimBy.simps leading_def spaces_def)

theorem Run_spatial_check_witness:
  "TrimSpace (Collection (demoRequest ''landsat'' [0, 0, 10, 10] [10, 0, 20, 10])) \<noteq> []
   \<and> Run_request demoLib (demoRequest ''landsat'' [0, 0, 10, 10] [10, 0, 20, 10]) =
       Inr ([Spawn \<lparr>qCollection = ''landsat'', qTime = 0, qUntil = None, qSRS = ''EPSG:3857'',
                     qWkt = Some (10, 0, 10, 10), qNameSpace = ''B4'', qNseg = 2, qLimit = 0\<rparr>
               False True],
            demoRequest ''landsat'' [0, 0, 10, 10] [10, 0, 20, 10], False)
   \<and> \<not> (length (SpatialExtent (GeoTileRequest.ConfigPayLoad
                (demoRequest ''landsat'' [0, 0, 10, 10] [10, 0, 20, 10]))) \<ge> 4 \<and>
          (\<exists>box. GetCanonicalBbox demoLib
                   (GeoTileRequest.CRS (demoRequest ''landsat'' [0, 0, 10, 10] [10, 0, 20, 10]))
                   (GeoTileRequest.BBox (demoRequest ''landsat'' [0, 0, 10, 10] [10, 0, 20, 10]))
                   = Inr (Canonical box) \<and>
             (min (box ! 2)
                  (SpatialExtent (GeoTileRequest.ConfigPayLoad
                     (demoRequest ''landsat'' [0, 0, 10, 10] [10, 0, 20, 10])) ! 2)
              < max (box ! 0)
                  (SpatialExtent (GeoTileRequest.ConfigPayLoad
                     (demoRequest ''landsat'' [0, 0, 10, 10] [10, 0, 20, 10])) ! 0) \<or>
              min (box ! 3)
                  (SpatialExtent (GeoTileRequest.ConfigPayLoad
                     (demoRequest ''landsat'' [0, 0, 10, 10] [10, 0, 20, 10])) ! 3)
              < max (box ! 1)
                  (SpatialExtent (GeoTileRequest.ConfigPayLoad
                     (demoRequest ''landsat'' [0, 0, 10, 10] [10, 0, 20, 10])) ! 1))))"
proof -
  let ?r = "demoRequest ''landsat'' [0, 0, 10, 10] [10, 0, 20, 10]"
  have h1: "TrimSpace (Collection ?r) \<noteq> []"
    by (simp add: demoRequest_def TrimSpace_landsat)
  have h2: "Run_request demoLib ?r =
       Inr ([Spawn \<lparr>qCollection = ''landsat'', qTime = 0, qUntil = None, qSRS = ''EPSG:3857'',
                     qWkt = Some (10, 0, 10, 10), qNameSpace = ''B4'', qNseg = 2, qLimit = 0\<rparr>
               False True], ?r, False)"
    by (simp add: Run_request_def demoRequest_def demoConfig_def demoLib_def
      TrimSpace_landsat TrimSpace_EPSG
      resolveTime_def BBox2WKT_def getIndexerURL_def queryURL_def spatialCheck_def GetCanonicalBbox_def
      mainQueries_def tileSize_def fconv_def trunc_def subTiles_def steps.simps shuffle_def maskQuery_def
      Let_def numeral_2_eq_2 numeral_3_eq_3)
  from Run_spatial_check [OF h1 h2] h1 h2 show ?thesis by blast
qed

subsection \<open>One metadata query\<close>

text \<open>
  C6. When the GET request fails, or the reading of the body, or the JSON decoding,
  \<^verbatim>\<open>URLIndexGet\<close> sends exactly one granule downstream, the empty tile, and calls
  \<^verbatim>\<open>sendError\<close> with the error. \<^verbatim>\<open>sendError\<close> returns at once in either case: on an
  error channel with a buffer of one error it stores the error when the channel is empty
  and leaves the channel as it is when it already holds an error. The empty tile has the
  path \<^verbatim>\<open>"NULL"\<close>, the empty-tile namespace, also as its only entry of \<^verbatim>\<open>NameSpaces\<close>, the
  raster type \<^verbatim>\<open>"Byte"\<close>, the timestamp zero, and the width, height, bounding box,
  reference system, offsets, scale parameters and palette of the request; every other
  field is zero.
\<close>

theorem URLIndexGet_failure:
  assumes "capacity ch = 1"
  shows "URLIndexGet lib selRange order cancel geoReq isEmptyTile GetFailed ch
           = Inr ([emptyTile lib geoReq], sendError ch GetRequestFailed)
       \<and> URLIndexGet lib selRange order cancel geoReq isEmptyTile ReadFailed ch
           = Inr ([emptyTile lib geoReq], sendError ch ReadBodyFailed)
       \<and> URLIndexGet lib selRange order cancel geoReq isEmptyTile ParseFailed ch
           = Inr ([emptyTile lib geoReq], sendError ch ParseJSONFailed)
       \<and> (buf ch = [] \<longrightarrow> buf (sendError ch err) = [err])
       \<and> (buf ch \<noteq> [] \<longrightarrow> sendError ch err = ch)
       \<and> Path (emptyTile lib geoReq) = ''NULL''
       \<and> GeoTileGranule.NameSpace (emptyTile lib geoReq) = EmptyTileNS lib
       \<and> NameSpaces (GeoTileGranule.ConfigPayLoad (emptyTile lib geoReq)) = [EmptyTileNS lib]
       \<and> RasterType (emptyTile lib geoReq) = ''Byte''
       \<and> GeoTileGranule.Width (emptyTile lib geoReq) = GeoTileRequest.Width geoReq
       \<and> GeoTileGranule.Height (emptyTile lib geoReq) = GeoTileRequest.Height geoReq
       \<and> GeoTileGranule.BBox (emptyTile lib geoReq) = GeoTileRequest.BBox geoReq
       \<and> GeoTileGranule.CRS (emptyTile lib geoReq) = GeoTileRequest.CRS geoReq
       \<and> GeoTileGranule.OffX (emptyTile lib geoReq) = GeoTileRequest.OffX geoReq
       \<and> GeoTileGranule.OffY (emptyTile lib geoReq) = GeoTileRequest.OffY geoReq
       \<and> TimeStamp (emptyTile lib geoReq) = f64zero lib
       \<and> ScaleParams (GeoTileGranule.ConfigPayLoad (emptyTile lib geoReq))
           = ScaleParams (GeoTileRequest.ConfigPayLoad geoReq)
       \<and> Palette (GeoTileGranule.ConfigPayLoad (emptyTile lib geoReq))
           = Palette (GeoTileRequest.ConfigPayLoad geoReq)
       \<and> emptyTile lib geoReq =
           \<lparr>GeoTileGranule.ConfigPayLoad =
              \<lparr>NameSpaces = [EmptyTileNS lib],
               ScaleParams = ScaleParams (GeoTileRequest.ConfigPayLoad geoReq),
               Palette = Palette (GeoTileRequest.ConfigPayLoad geoReq),
               Mask = None, PolygonSegments = 0, QueryLimit = 0, AxisMapping = 0,
               IndexTileXSize = 0, IndexTileYSize = 0, SpatialExtent = [], IndexResLimit = 0,
               MasQueryHint = []\<rparr>,
            RawPath = [], Path = ''NULL'', CRS = GeoTileRequest.CRS geoReq, SrcSRS = [],
            SrcGeoTransform = [], BBox = GeoTileRequest.BBox geoReq, DstGeoTransform = [],
            Height = GeoTileRequest.Height geoReq, Width = GeoTileRequest.Width geoReq,
            RawHeight = 0, RawWidth = 0,
            OffX = GeoTileRequest.OffX geoReq, OffY = GeoTileRequest.OffY geoReq,
            NameSpace = EmptyTileNS lib, VarNameSpace = [], TimeStamp = f64zero lib, BandIdx = 0,
            Polygon = [], RasterType = ''Byte'', GeoLocation = None, ClipFeature = None\<rparr>"
  using assms by (cases "buf ch") (simp_all add: URLIndexGet_def sendError_def emptyTile_def)

theorem URLIndexGet_failure_witness:
  "capacity \<lparr>capacity = 1, buf = [OtherError ''first'']\<rparr> = 1
   \<and> buf \<lparr>capacity = 1, buf = [OtherError ''first'']\<rparr> \<noteq> []
   \<and> URLIndexGet demoLib (\<lambda>axis tileAxis geoReq ds. Inl GridNotEnum) (\<lambda>k i. 0) (\<lambda>i. NothingPending)
        (demoRequest ''landsat'' [0, 0, 10, 10] []) False GetFailed
        \<lparr>capacity = 1, buf = [OtherError ''first'']\<rparr>
       = Inr ([emptyTile demoLib (demoRequest ''landsat'' [0, 0, 10, 10] [])],
              \<lparr>capacity = 1, buf = [OtherError ''first'']\<rparr>)"
proof -
  let ?ch = "\<lparr>capacity = 1, buf = [OtherError ''first'']\<rparr>"
  have c: "capacity ?ch = 1" and b: "buf ?ch \<noteq> []" by simp_all
  from URLIndexGet_failure [OF c, of demoLib "\<lambda>axis tileAxis geoReq ds. Inl GridNotEnum" "\<lambda>k i. 0"
      "\<lambda>i. NothingPending" "demoRequest ''landsat'' [0, 0, 10, 10] []" False GetRequestFailed]
  have u: "URLIndexGet demoLib (\<lambda>axis tileAxis geoReq ds. Inl GridNotEnum) (\<lambda>k i. 0) (\<lambda>i. NothingPending)
        (demoRequest ''landsat'' [0, 0, 10, 10] []) False GetFailed ?ch
       = Inr ([emptyTile demoLib (demoRequest ''landsat'' [0, 0, 10, 10] [])], sendError ?ch GetRequestFailed)"
    and s: "buf ?ch \<noteq> [] \<longrightarrow> sendError ?ch GetRequestFailed = ?ch"
    by blast+
  from s b have "sendError ?ch GetRequestFailed = ?ch" by blast
  with u c b show ?thesis by (simp only:) blast
qed

text \<open>The selection multiplies by the stride, and the expansion adds up.\<close>

lemma applyStride_idx:
  assumes "applyStride a0 = Inr a"
  shows "length (IntersectionIdx a) = length (IntersectionIdx a0) \<and>
         (\<forall>c<length (IntersectionIdx a0). IntersectionIdx a ! c = IntersectionIdx a0 ! c * Strides a0 ! 0)"
  using assms by (auto simp: applyStride_def split: if_splits list.splits)

lemma selectAxes_selected:
  assumes "selectAxes lib selRange ds axes (gr, lk, outr, axesDone) = Inr (gr', lk', outr', axes')"
  shows "\<exists>sel stridden.
           selectedAxes lib selRange ds axes (gr, lk, outr) = Inr ((gr', lk', outr'), sel) \<and>
           axes' = axesDone @ stridden \<and>
           list_all2 (\<lambda>a0 a. applyStride a0 = Inr a) sel stridden"
  using assms
proof (induction lib selRange ds axes "(gr, lk, outr, axesDone)" arbitrary: gr lk outr axesDone
    rule: selectAxes.induct)
  case (1 lib selRange ds)
  then show ?case by auto
next
  case (2 lib selRange ds axis rest geoReq lookup isOutRange axesDone)
  from "2.prems" obtain gr1 lk1 o1 axis1 axis2 where
    sel: "selectAxis lib selRange ds axis (geoReq, lookup, isOutRange) = Inr (gr1, lk1, o1, axis1)"
    and str: "applyStride axis1 = Inr axis2"
    and run: "selectAxes lib selRange ds rest (gr1, lk1, o1, axesDone @ [axis2]) = Inr (gr', lk', outr', axes')"
    by (auto split: sum.splits)
  from "2.hyps" [OF sel refl refl refl str run]
  obtain sel' stridden' where
    s: "selectedAxes lib selRange ds rest (gr1, lk1, o1) = Inr ((gr', lk', outr'), sel')"
    and a: "axes' = (axesDone @ [axis2]) @ stridden'"
    and l: "list_all2 (\<lambda>a0 a. applyStride a0 = Inr a) sel' stridden'" by blast
  from sel s have "selectedAxes lib selRange ds (axis # rest) (geoReq, lookup, isOutRange)
                     = Inr ((gr', lk', outr'), axis1 # sel')" by simp
  with a l str show ?case
    by (intro exI [of _ "axis1 # sel'"] exI [of _ "axis2 # stridden'"]) simp
qed

lemma selectDataset_selected:
  assumes "selectDataset lib selRange ds0 st = Inr (gr', lk', ds')"
  shows "\<exists>sel outr.
           selectedAxes lib selRange
             (if length (GDALDataset.Axes ds0) = 0 then ds0\<lparr>GDALDataset.Axes := [defaultAxis]\<rparr> else ds0)
             (GDALDataset.Axes
               (if length (GDALDataset.Axes ds0) = 0 then ds0\<lparr>GDALDataset.Axes := [defaultAxis]\<rparr> else ds0))
             (fst st, snd st, False) = Inr ((gr', lk', outr), sel) \<and>
           list_all2 (\<lambda>a0 a. applyStride a0 = Inr a) sel (GDALDataset.Axes ds')"
proof -
  define ds where "ds = (if length (GDALDataset.Axes ds0) = 0 then ds0\<lparr>GDALDataset.Axes := [defaultAxis]\<rparr> else ds0)"
  from assms obtain o1 axes' where
    run: "selectAxes lib selRange ds (GDALDataset.Axes ds) (fst st, snd st, False, []) = Inr (gr', lk', o1, axes')"
    and d: "GDALDataset.Axes ds' = axes'"
    unfolding selectDataset_def Let_def ds_def [symmetric]
    by (auto split: sum.splits)
  from selectAxes_selected [OF run] d show ?thesis
    unfolding ds_def [symmetric] by auto
qed

lemma selectDatasets_selected:
  assumes "selectDatasets lib selRange dss (gr, lk, dsDone) = Inr (gr', dss')"
  shows "\<exists>sels news.
           selections lib selRange dss (gr, lk) = Inr sels \<and>
           dss' = dsDone @ news \<and>
           list_all2 (\<lambda>sel ds'. list_all2 (\<lambda>a0 a. applyStride a0 = Inr a) sel (GDALDataset.Axes ds'))
             sels news"
  using assms
proof (induction lib selRange dss "(gr, lk, dsDone)" arbitrary: gr lk dsDone rule: selectDatasets.induct)
  case (1 lib selRange geoReq lookup dsDone)
  then show ?case by auto
next
  case (2 lib selRange ds rest geoReq lookup dsDone)
  from "2.prems" obtain gr1 lk1 ds1 where
    one: "selectDataset lib selRange ds (geoReq, lookup) = Inr (gr1, lk1, ds1)"
    and run: "selectDatasets lib selRange rest (gr1, lk1, dsDone @ [ds1]) = Inr (gr', dss')"
    by (auto split: sum.splits)
  from "2.hyps" [OF one refl refl run] obtain sels news where
    s: "selections lib selRange rest (gr1, lk1) = Inr sels"
    and a: "dss' = (dsDone @ [ds1]) @ news"
    and l: "list_all2 (\<lambda>sel ds'. list_all2 (\<lambda>a0 a. applyStride a0 = Inr a) sel (GDALDataset.Axes ds'))
              sels news" by blast
  from selectDataset_selected [OF one] obtain sel outr where
    t: "selectedAxes lib selRange
             (if length (GDALDataset.Axes ds) = 0 then ds\<lparr>GDALDataset.Axes := [defaultAxis]\<rparr> else ds)
             (GDALDataset.Axes
               (if length (GDALDataset.Axes ds) = 0 then ds\<lparr>GDALDataset.Axes := [defaultAxis]\<rparr> else ds))
             (geoReq, lookup, False) = Inr ((gr1, lk1, outr), sel)"
    and r: "list_all2 (\<lambda>a0 a. applyStride a0 = Inr a) sel (GDALDataset.Axes ds1)" by auto
  from t s have "selections lib selRange (ds # rest) (geoReq, lookup) = Inr (sel # sels)"
    by (simp add: Let_def)
  with a l r show ?case
    by (intro exI [of _ "sel # sels"] exI [of _ "ds1 # news"]) simp
qed

lemma axesLoop_bandIdx:
  "axesLoop lib xs acc = Inr acc' \<Longrightarrow>
   fst acc' = fst acc + sum_list (map (\<lambda>(axis, c). IntersectionIdx axis ! c) xs)"
proof (induction xs arbitrary: acc)
  case Nil
  then show ?case by simp
next
  case (Cons x xs)
  obtain axis c where x: "x = (axis, c)" by (cases x)
  obtain b a t ns f h where acc: "acc = (b, a, t, ns, f, h)" by (cases acc) auto
  from Cons.prems obtain acc1 where step: "axesLoop lib xs acc1 = Inr acc'"
    and b1: "fst acc1 = b + IntersectionIdx axis ! c"
    by (auto simp: x acc Let_def split: if_splits)
  from Cons.IH [OF step] b1 show ?case by (simp add: x acc add.assoc)
qed

lemma combination_granule:
  assumes "combination lib geoReq isEmptyTile ds dsNameSpace cnt st = Inr st'"
  shows "snd st' = snd st \<or>
         (\<exists>g t f h. snd st' = snd st @ [g] \<and>
              axesLoop lib (zip (GDALDataset.Axes ds) cnt)
                (1, f64zero lib, f64zero lib, dsNameSpace, True, False)
                = Inr (BandIdx g, TimeStamp g, t, GeoTileGranule.NameSpace g, f, h))"
proof -
  from assms obtain acc' where
    loop: "axesLoop lib (zip (GDALDataset.Axes ds) cnt)
             (1, f64zero lib, f64zero lib, dsNameSpace, True, False) = Inr acc'"
    by (auto simp: combination_def split: sum.splits)
  obtain b a t ns f h where acc': "acc' = (b, a, t, ns, f, h)" by (cases acc') auto
  let ?g = "newGranule geoReq isEmptyTile ds ns a b"
  from assms loop acc' have d: "snd st' = snd st \<or> snd st' = snd st @ [?g]"
    by (auto simp: combination_def Let_def split: if_splits)
  have l: "axesLoop lib (zip (GDALDataset.Axes ds) cnt)
                (1, f64zero lib, f64zero lib, dsNameSpace, True, False)
                = Inr (BandIdx ?g, TimeStamp ?g, t, GeoTileGranule.NameSpace ?g, f, h)"
    unfolding loop acc' by (simp add: newGranule_def)
  from d show ?thesis
  proof
    assume "snd st' = snd st" then show ?thesis by (rule disjI1)
  next
    assume e: "snd st' = snd st @ [?g]"
    show ?thesis
      by (rule disjI2, rule exI [of _ ?g], rule exI [of _ t], rule exI [of _ f], rule exI [of _ h],
          rule conjI, rule e, rule l)
  qed
qed

lemma expand_granule:
  assumes "expand lib geoReq isEmptyTile ds dsNameSpace cnt st = Inr st'"
  shows "\<forall>g\<in>set (snd st'). g \<in> set (snd st) \<or>
           (\<exists>cnt t f h. length cnt = length (GDALDataset.Axes ds) \<and>
                  (\<forall>i<length cnt. cnt ! i < length (IntersectionIdx (GDALDataset.Axes ds ! i))) \<and>
                  axesLoop lib (zip (GDALDataset.Axes ds) cnt)
                    (1, f64zero lib, f64zero lib, dsNameSpace, True, False)
                    = Inr (BandIdx g, TimeStamp g, t, GeoTileGranule.NameSpace g, f, h))"
  using assms
proof (induction lib geoReq isEmptyTile ds dsNameSpace cnt st rule: expand.induct)
  case (1 lib geoReq isEmptyTile ds dsNameSpace cnt st)
  let ?P = "\<lambda>g. \<exists>cnt t f h. length cnt = length (GDALDataset.Axes ds) \<and>
                  (\<forall>i<length cnt. cnt ! i < length (IntersectionIdx (GDALDataset.Axes ds ! i))) \<and>
                  axesLoop lib (zip (GDALDataset.Axes ds) cnt)
                    (1, f64zero lib, f64zero lib, dsNameSpace, True, False)
                    = Inr (BandIdx g, TimeStamp g, t, GeoTileGranule.NameSpace g, f, h)"
  show ?case
  proof (cases "cnt \<noteq> [] \<and> length cnt = length (GDALDataset.Axes ds) \<and> cnt ! 0 < axisLens ds ! 0")
    case False
    with "1.prems" have "st' = st" by (subst (asm) expand.simps) auto
    then show ?thesis by simp
  next
    case True
    with "1.prems" obtain st1 where
      c: "combination lib geoReq isEmptyTile ds dsNameSpace cnt st = Inr st1"
      and run: "expand lib geoReq isEmptyTile ds dsNameSpace (advance (axisLens ds) cnt) st1 = Inr st'"
      by (subst (asm) expand.simps) (auto split: sum.splits)
    from True have len: "length cnt = length (GDALDataset.Axes ds)" by simp
    from combination_in_range [OF c len]
    have rng: "\<forall>i<length cnt. cnt ! i < length (IntersectionIdx (GDALDataset.Axes ds ! i))"
      using len by (simp add: axisLens_def)
    from "1.IH" [OF True c run]
    have ih: "\<forall>g\<in>set (snd st'). g \<in> set (snd st1) \<or> ?P g" .
    have inner: "g \<in> set (snd st) \<or> ?P g" if g: "g \<in> set (snd st')" for g
    proof -
      from ih g have "g \<in> set (snd st1) \<or> ?P g" by (rule bspec)
      then show ?thesis
      proof
        assume g1: "g \<in> set (snd st1)"
        from combination_granule [OF c] show ?thesis
        proof
          assume "snd st1 = snd st"
          with g1 show ?thesis by simp
        next
          assume "\<exists>g t f h. snd st1 = snd st @ [g] \<and>
              axesLoop lib (zip (GDALDataset.Axes ds) cnt)
                (1, f64zero lib, f64zero lib, dsNameSpace, True, False)
                = Inr (BandIdx g, TimeStamp g, t, GeoTileGranule.NameSpace g, f, h)"
          then obtain g' t f h where s1: "snd st1 = snd st @ [g']"
            and l: "axesLoop lib (zip (GDALDataset.Axes ds) cnt)
                (1, f64zero lib, f64zero lib, dsNameSpace, True, False)
                = Inr (BandIdx g', TimeStamp g', t, GeoTileGranule.NameSpace g', f, h)"
            by (elim exE conjE)
          show ?thesis
          proof (cases "g = g'")
            case True
            have "?P g" unfolding True
              by (rule exI [of _ cnt], rule exI [of _ t], rule exI [of _ f], rule exI [of _ h],
                  intro conjI, rule len, rule rng, rule l)
            then show ?thesis by (rule disjI2)
          next
            case False
            with s1 g1 show ?thesis by simp
          qed
        qed
      next
        assume "?P g" then show ?thesis by (rule disjI2)
      qed
    qed
    show ?thesis by (intro ballI inner)
  qed
qed

lemma expandDatasets_granule:
  assumes "expandDatasets lib geoReq isEmptyTile dss st = Inr st'"
  shows "\<forall>g\<in>set (snd st'). g \<in> set (snd st) \<or>
           (\<exists>ds\<in>set dss. \<exists>cnt t f h. length cnt = length (GDALDataset.Axes ds) \<and>
                  (\<forall>i<length cnt. cnt ! i < length (IntersectionIdx (GDALDataset.Axes ds ! i))) \<and>
                  axesLoop lib (zip (GDALDataset.Axes ds) cnt)
                    (1, f64zero lib, f64zero lib,
                     if isEmptyTile then EmptyTileNS lib else GDALDataset.NameSpace ds, True, False)
                    = Inr (BandIdx g, TimeStamp g, t, GeoTileGranule.NameSpace g, f, h))"
  using assms
proof (induction dss arbitrary: st)
  case Nil
  then show ?case by simp
next
  case (Cons ds rest)
  let ?P = "\<lambda>d g. \<exists>cnt t f h. length cnt = length (GDALDataset.Axes d) \<and>
                  (\<forall>i<length cnt. cnt ! i < length (IntersectionIdx (GDALDataset.Axes d ! i))) \<and>
                  axesLoop lib (zip (GDALDataset.Axes d) cnt)
                    (1, f64zero lib, f64zero lib,
                     if isEmptyTile then EmptyTileNS lib else GDALDataset.NameSpace d, True, False)
                    = Inr (BandIdx g, TimeStamp g, t, GeoTileGranule.NameSpace g, f, h)"
  have weaken: "g \<in> set (snd st) \<or> (\<exists>d\<in>set (ds # rest). ?P d g)"
    if "g \<in> set (snd st) \<or> (\<exists>d\<in>set rest. ?P d g)" for g
    using that
  proof
    assume "g \<in> set (snd st)" then show ?thesis by (rule disjI1)
  next
    assume "\<exists>d\<in>set rest. ?P d g"
    then obtain d where d: "d \<in> set rest" and p: "?P d g" by (elim bexE)
    from d have "d \<in> set (ds # rest)" by simp
    with p show ?thesis by (intro disjI2 bexI [of _ d])
  qed
  show ?case
  proof (cases "IsOutRange ds")
    case True
    with Cons.prems have "expandDatasets lib geoReq isEmptyTile rest st = Inr st'" by simp
    from Cons.IH [OF this] have ih: "\<forall>g\<in>set (snd st'). g \<in> set (snd st) \<or> (\<exists>d\<in>set rest. ?P d g)" .
    have "g \<in> set (snd st) \<or> (\<exists>d\<in>set (ds # rest). ?P d g)" if g: "g \<in> set (snd st')" for g
    proof -
      from ih g have "g \<in> set (snd st) \<or> (\<exists>d\<in>set rest. ?P d g)" by (rule bspec)
      then show ?thesis by (rule weaken)
    qed
    then show ?thesis by (intro ballI)
  next
    case False
    with Cons.prems obtain st1 where
      e: "expand lib geoReq isEmptyTile ds
                (if isEmptyTile then EmptyTileNS lib else GDALDataset.NameSpace ds)
                (replicate (length (GDALDataset.Axes ds)) 0) st = Inr st1"
      and run: "expandDatasets lib geoReq isEmptyTile rest st1 = Inr st'"
      by (auto split: if_splits sum.splits)
    from Cons.IH [OF run] have ih: "\<forall>g\<in>set (snd st'). g \<in> set (snd st1) \<or> (\<exists>d\<in>set rest. ?P d g)" .
    from expand_granule [OF e] have one: "\<forall>g\<in>set (snd st1). g \<in> set (snd st) \<or> ?P ds g" .
    have "g \<in> set (snd st) \<or> (\<exists>d\<in>set (ds # rest). ?P d g)" if g: "g \<in> set (snd st')" for g
    proof -
      from ih g have "g \<in> set (snd st1) \<or> (\<exists>d\<in>set rest. ?P d g)" by (rule bspec)
      then show ?thesis
      proof
        assume "g \<in> set (snd st1)"
        with one have "g \<in> set (snd st) \<or> ?P ds g" by (rule bspec)
        then show ?thesis
        proof
          assume "g \<in> set (snd st)" then show ?thesis by (rule disjI1)
        next
          assume a: "?P ds g"
          have "ds \<in> set (ds # rest)" by simp
          with a show ?thesis by (intro disjI2 bexI [of _ ds])
        qed
      next
        assume "\<exists>d\<in>set rest. ?P d g"
        then have "g \<in> set (snd st) \<or> (\<exists>d\<in>set rest. ?P d g)" by (rule disjI2)
        then show ?thesis by (rule weaken)
      qed
    qed
    then show ?thesis by (intro ballI)
  qed
qed

lemma emit_subset: "set (fst (emit cancel i gs ch)) \<subseteq> set gs"
proof (induction gs arbitrary: i ch)
  case Nil
  then show ?case by simp
next
  case (Cons g gs)
  obtain ch' stop where c: "checkCancellation (cancel i) ch = (ch', stop)"
    by (cases "checkCancellation (cancel i) ch")
  show ?case
  proof (cases stop)
    case True
    with c show ?thesis by simp
  next
    case False
    obtain sent ch'' where e: "emit cancel (Suc i) gs ch' = (sent, ch'')"
      by (cases "emit cancel (Suc i) gs ch'")
    with Cons.IH [of "Suc i" ch'] have "set sent \<subseteq> set gs" by simp
    with c False e show ?thesis by auto
  qed
qed

lemma sum_list_sint_nonneg:
  fixes xs :: "goint list"
  shows "\<forall>x\<in>set xs. 0 \<le> sint x \<Longrightarrow> 0 \<le> sum_list (map sint xs)"
  by (induction xs) auto

lemma sint_sum_nowrap:
  fixes xs :: "goint list"
  assumes "0 \<le> sint b" "\<forall>x\<in>set xs. 0 \<le> sint x" "sint b + sum_list (map sint xs) < 2 ^ 63"
  shows "sint (b + sum_list xs) = sint b + sum_list (map sint xs)"
  using assms
proof (induction xs arbitrary: b)
  case Nil
  then show ?case by simp
next
  case (Cons x xs)
  have r: "0 \<le> sum_list (map sint xs)" using Cons.prems(2) by (intro sum_list_sint_nonneg) simp
  have bx: "sint (b + x) = sint b + sint x"
    using Cons.prems r by (intro sint_add_nowrap) auto
  have "sint ((b + x) + sum_list xs) = sint (b + x) + sum_list (map sint xs)"
    using Cons.prems bx by (intro Cons.IH) auto
  then show ?case by (simp add: bx add.assoc)
qed

lemma strided_indices:
  assumes "list_all2 (\<lambda>a0 a. applyStride a0 = Inr a) sel axes"
    and "length cnt = length axes"
    and "\<forall>i<length cnt. cnt ! i < length (IntersectionIdx (axes ! i))"
  shows "map (\<lambda>(axis, c). IntersectionIdx axis ! c) (zip axes cnt)
           = map (\<lambda>(a, c). IntersectionIdx a ! c * Strides a ! 0) (zip sel cnt)"
    and "\<forall>i<length cnt. cnt ! i < length (IntersectionIdx (sel ! i))"
proof -
  from assms(1) have len: "length sel = length axes" by (rule list_all2_lengthD)
  have one: "length (IntersectionIdx (axes ! i)) = length (IntersectionIdx (sel ! i)) \<and>
             IntersectionIdx (axes ! i) ! (cnt ! i)
               = IntersectionIdx (sel ! i) ! (cnt ! i) * Strides (sel ! i) ! 0"
    if i: "i < length cnt" for i
  proof -
    from i assms(2) len have "applyStride (sel ! i) = Inr (axes ! i)"
      using list_all2_nthD [OF assms(1), of i] by simp
    from applyStride_idx [OF this] assms(3) i show ?thesis by auto
  qed
  show "\<forall>i<length cnt. cnt ! i < length (IntersectionIdx (sel ! i))"
    using one assms(3) by simp
  show "map (\<lambda>(axis, c). IntersectionIdx axis ! c) (zip axes cnt)
           = map (\<lambda>(a, c). IntersectionIdx a ! c * Strides a ! 0) (zip sel cnt)"
    using one assms(2) len by (intro nth_equalityI) simp_all
qed

text \<open>
  C4. Every granule that \<^verbatim>\<open>URLIndexGet\<close> sends from the expansion of a non-empty response
  belongs to a dataset, number \<open>i\<close> of the response, and to one combination \<open>cnt\<close> of
  counters, one per axis and within the selection of its axis: the loop over the axes run
  on \<open>cnt\<close> gives the granule its band index, timestamp and namespace. With \<open>sels ! i\<close> the
  axes of that dataset as the selection leaves them, the axes that the expansion reads are
  these with every selected index multiplied by the first stride of its axis, and the band
  index is one plus the sum, over the axes, of the selected index at the counter multiplied
  by the first stride, in 64-bit arithmetic. When no product is negative and one plus
  their sum stays below \<open>2 ^ 63\<close>, the band index is that sum as an integer and is at least
  one.
\<close>

theorem URLIndexGet_bandIdx:
  assumes "URLIndexGet lib selRange order cancel geoReq isEmptyTile (Response err datasets) ch
             = Inr (sent, ch')"
    and "datasets \<noteq> []"
    and "g \<in> set sent"
  shows "\<exists>geoReq' datasets' sels i cnt t f h.
           selectDatasets lib selRange datasets (geoReq, Map.empty, []) = Inr (geoReq', datasets') \<and>
           selections lib selRange datasets (geoReq, Map.empty) = Inr sels \<and>
           length sels = length datasets' \<and> i < length sels \<and>
           list_all2 (\<lambda>a0 a. applyStride a0 = Inr a) (sels ! i) (GDALDataset.Axes (datasets' ! i)) \<and>
           length cnt = length (sels ! i) \<and>
           (\<forall>j<length cnt. cnt ! j < length (IntersectionIdx (sels ! i ! j))) \<and>
           axesLoop lib (zip (GDALDataset.Axes (datasets' ! i)) cnt)
             (1, f64zero lib, f64zero lib,
              if isEmptyTile then EmptyTileNS lib else GDALDataset.NameSpace (datasets' ! i), True, False)
             = Inr (BandIdx g, TimeStamp g, t, GeoTileGranule.NameSpace g, f, h) \<and>
           BandIdx g = 1 + sum_list (map (\<lambda>(a, c). IntersectionIdx a ! c * Strides a ! 0)
                                         (zip (sels ! i) cnt)) \<and>
           ((\<forall>(a, c)\<in>set (zip (sels ! i) cnt). 0 \<le> sint (IntersectionIdx a ! c * Strides a ! 0)) \<and>
            1 + sum_list (map (\<lambda>(a, c). sint (IntersectionIdx a ! c * Strides a ! 0))
                              (zip (sels ! i) cnt)) < 2 ^ 63
            \<longrightarrow> sint (BandIdx g)
                  = 1 + sum_list (map (\<lambda>(a, c). sint (IntersectionIdx a ! c * Strides a ! 0))
                                      (zip (sels ! i) cnt))
                \<and> 1 \<le> sint (BandIdx g))"
proof -
  from assms obtain geoReq' datasets' where
    sel: "selectDatasets lib selRange datasets (geoReq, Map.empty, []) = Inr (geoReq', datasets')"
    by (auto simp: URLIndexGet_def split: sum.splits sel_error.splits if_splits)
  from assms(1,2) sel obtain bns granList where
    ex: "expandDatasets lib geoReq' isEmptyTile datasets' (Map.empty, []) = Inr (bns, granList)"
    by (auto simp: URLIndexGet_def split: sum.splits)
  obtain sortedNs hasNewNs where
    ns: "sortedNameSpaces order 0 (NameSpaces (GeoTileRequest.ConfigPayLoad geoReq')) bns
           = (sortedNs, hasNewNs)"
    by (cases "sortedNameSpaces order 0 (NameSpaces (GeoTileRequest.ConfigPayLoad geoReq')) bns")
  define granList' where "granList' =
    (if hasNewNs
     then map (\<lambda>gran. gran\<lparr>GeoTileGranule.ConfigPayLoad :=
                 (GeoTileRequest.ConfigPayLoad geoReq')\<lparr>NameSpaces := sortedNs\<rparr>\<rparr>) granList
     else granList)"
  from assms(1,2) sel ex ns have "emit cancel 0 granList' ch = (sent, ch')"
    by (simp add: URLIndexGet_def granList'_def)
  with emit_subset [of cancel 0 granList' ch] assms(3) have "g \<in> set granList'" by auto
  then obtain g0 where g0: "g0 \<in> set granList" and b: "BandIdx g = BandIdx g0"
    and ts: "TimeStamp g = TimeStamp g0"
    and nm: "GeoTileGranule.NameSpace g = GeoTileGranule.NameSpace g0"
    by (auto simp: granList'_def split: if_splits)
  from g0 have g0': "g0 \<in> set (snd (bns, granList))" by simp
  have "g0 \<notin> set (snd (Map.empty :: string \<rightharpoonup> 'a bands, [] :: 'a GeoTileGranule list))" by simp
  with bspec [OF expandDatasets_granule [OF ex] g0'] have
    "\<exists>ds\<in>set datasets'. \<exists>cnt t f h. length cnt = length (GDALDataset.Axes ds) \<and>
                  (\<forall>i<length cnt. cnt ! i < length (IntersectionIdx (GDALDataset.Axes ds ! i))) \<and>
                  axesLoop lib (zip (GDALDataset.Axes ds) cnt)
                    (1, f64zero lib, f64zero lib,
                     if isEmptyTile then EmptyTileNS lib else GDALDataset.NameSpace ds, True, False)
                    = Inr (BandIdx g0, TimeStamp g0, t, GeoTileGranule.NameSpace g0, f, h)"
    by (elim disjE) (erule notE, assumption+)
  then obtain ds cnt t f h where
    ds: "ds \<in> set datasets'"
    and len: "length cnt = length (GDALDataset.Axes ds)"
    and rng: "\<forall>i<length cnt. cnt ! i < length (IntersectionIdx (GDALDataset.Axes ds ! i))"
    and loop: "axesLoop lib (zip (GDALDataset.Axes ds) cnt)
                    (1, f64zero lib, f64zero lib,
                     if isEmptyTile then EmptyTileNS lib else GDALDataset.NameSpace ds, True, False)
                    = Inr (BandIdx g0, TimeStamp g0, t, GeoTileGranule.NameSpace g0, f, h)"
    by (elim bexE exE conjE)
  from axesLoop_bandIdx [OF loop]
  have idx: "BandIdx g0 = 1 + sum_list (map (\<lambda>(axis, c). IntersectionIdx axis ! c)
                                               (zip (GDALDataset.Axes ds) cnt))" by simp
  from selectDatasets_selected [OF sel] obtain sels where
    ss: "selections lib selRange datasets (geoReq, Map.empty) = Inr sels"
    and l2: "list_all2 (\<lambda>sel ds'. list_all2 (\<lambda>a0 a. applyStride a0 = Inr a) sel (GDALDataset.Axes ds'))
               sels datasets'" by auto
  from l2 have ls: "length sels = length datasets'" by (rule list_all2_lengthD)
  from ds obtain i where i: "i < length datasets'" and di: "datasets' ! i = ds"
    by (auto simp: in_set_conv_nth)
  from list_all2_nthD [OF l2, of i] i ls
  have st: "list_all2 (\<lambda>a0 a. applyStride a0 = Inr a) (sels ! i) (GDALDataset.Axes ds)"
    by (simp add: di)
  let ?xs = "map (\<lambda>(a, c). IntersectionIdx a ! c * Strides a ! 0) (zip (sels ! i) cnt)"
  from strided_indices [OF st len rng] have
    eq: "map (\<lambda>(axis, c). IntersectionIdx axis ! c) (zip (GDALDataset.Axes ds) cnt) = ?xs"
    and rng0: "\<forall>j<length cnt. cnt ! j < length (IntersectionIdx (sels ! i ! j))" by simp_all
  from st len have len0: "length cnt = length (sels ! i)" by (simp add: list_all2_lengthD)
  from b idx eq have bi: "BandIdx g = 1 + sum_list ?xs" by simp
  have ms: "map sint ?xs = map (\<lambda>(a, c). sint (IntersectionIdx a ! c * Strides a ! 0)) (zip (sels ! i) cnt)"
    by (simp add: comp_def case_prod_unfold)
  have int: "sint (BandIdx g) = 1 + sum_list (map sint ?xs) \<and> 1 \<le> sint (BandIdx g)"
    if nn: "\<forall>(a, c)\<in>set (zip (sels ! i) cnt). 0 \<le> sint (IntersectionIdx a ! c * Strides a ! 0)"
      and bd: "1 + sum_list (map sint ?xs) < 2 ^ 63"
  proof -
    from nn have nn': "\<forall>x\<in>set ?xs. 0 \<le> sint x" by auto
    have "sint ((1 :: goint) + sum_list ?xs) = sint (1 :: goint) + sum_list (map sint ?xs)"
      using nn' bd by (intro sint_sum_nowrap) simp_all
    with bi have "sint (BandIdx g) = 1 + sum_list (map sint ?xs)" by simp
    moreover from nn' have "0 \<le> sum_list (map sint ?xs)" by (rule sum_list_sint_nonneg)
    ultimately show ?thesis by simp
  qed
  have loop': "axesLoop lib (zip (GDALDataset.Axes (datasets' ! i)) cnt)
             (1, f64zero lib, f64zero lib,
              if isEmptyTile then EmptyTileNS lib else GDALDataset.NameSpace (datasets' ! i), True, False)
             = Inr (BandIdx g, TimeStamp g, t, GeoTileGranule.NameSpace g, f, h)"
    unfolding di b ts nm by (rule loop)
  from st di have st': "list_all2 (\<lambda>a0 a. applyStride a0 = Inr a) (sels ! i) (GDALDataset.Axes (datasets' ! i))"
    by simp
  from i ls have i': "i < length sels" by simp
  have imp: "(\<forall>(a, c)\<in>set (zip (sels ! i) cnt). 0 \<le> sint (IntersectionIdx a ! c * Strides a ! 0)) \<and>
            1 + sum_list (map (\<lambda>(a, c). sint (IntersectionIdx a ! c * Strides a ! 0))
                              (zip (sels ! i) cnt)) < 2 ^ 63
            \<longrightarrow> sint (BandIdx g)
                  = 1 + sum_list (map (\<lambda>(a, c). sint (IntersectionIdx a ! c * Strides a ! 0))
                                      (zip (sels ! i) cnt))
                \<and> 1 \<le> sint (BandIdx g)"
    using int unfolding ms by blast
  show ?thesis
    by (rule exI [of _ geoReq'], rule exI [of _ datasets'], rule exI [of _ sels], rule exI [of _ i],
        rule exI [of _ cnt], rule exI [of _ t], rule exI [of _ f], rule exI [of _ h],
        intro conjI, rule sel, rule ss, rule ls, rule i', rule st', rule len0, rule rng0,
        rule loop', rule bi, rule imp)
qed

text \<open>An axis with two parameters and stride two under a request that selects all
  indices: the band indices are one and three.\<close>

theorem URLIndexGet_bandIdx_witness:
  "\<exists>sent ch'.
     URLIndexGet demoLib (\<lambda>axis tileAxis geoReq ds. Inl GridNotEnum) (\<lambda>k i. 0) (\<lambda>i. NothingPending)
       demoAllIndices False (Response [] [demoDataset [demoAxis ''level'' [10, 20] 2]])
       \<lparr>capacity = 1, buf = []\<rparr> = Inr (sent, ch')
     \<and> map BandIdx sent = [1, 3]
     \<and> list_all (\<lambda>g. 1 \<le> sint (BandIdx g)) sent"
proof -
  let ?sr = "(\<lambda>axis tileAxis geoReq ds. Inl GridNotEnum) :: (int, int) selRange"
  let ?dss = "[demoDataset [demoAxis ''level'' [10, 20] 2]]"
  let ?run = "URLIndexGet demoLib ?sr (\<lambda>k i. 0) (\<lambda>i. NothingPending)
       demoAllIndices False (Response [] ?dss) \<lparr>capacity = 1, buf = []\<rparr>"
  have "map_sum id (\<lambda>(sent, c). map BandIdx sent) ?run = Inr [1, 3]" by code_simp
  then obtain sent ch' where run: "?run = Inr (sent, ch')" and bands: "map BandIdx sent = [1, 3]"
    by (cases ?run) auto
  have ne: "?dss \<noteq> []" by simp
  have "map_sum id (map (map (\<lambda>a. (IntersectionIdx a, Strides a))))
          (selections demoLib ?sr ?dss (demoAllIndices, Map.empty)) = Inr [[([0, 1], [2])]]"
    by code_simp
  then have selected: "map (map (\<lambda>a. (IntersectionIdx a, Strides a))) sels = [[([0, 1], [2])]]"
    if "selections demoLib ?sr ?dss (demoAllIndices, Map.empty) = Inr sels" for sels
    using that by simp
  have "1 \<le> sint (BandIdx g)" if g: "g \<in> set sent" for g
  proof -
    from URLIndexGet_bandIdx [OF run ne g] obtain geoReq' datasets' sels i cnt t f h where
      "selectDatasets demoLib ?sr ?dss (demoAllIndices, Map.empty, []) = Inr (geoReq', datasets')"
      and s: "selections demoLib ?sr ?dss (demoAllIndices, Map.empty) = Inr sels"
      and "length sels = length datasets'"
      and i: "i < length sels"
      and "list_all2 (\<lambda>a0 a. applyStride a0 = Inr a) (sels ! i) (GDALDataset.Axes (datasets' ! i))"
      and len: "length cnt = length (sels ! i)"
      and rng: "\<forall>j<length cnt. cnt ! j < length (IntersectionIdx (sels ! i ! j))"
      and "axesLoop demoLib (zip (GDALDataset.Axes (datasets' ! i)) cnt)
             (1, f64zero demoLib, f64zero demoLib,
              if False then EmptyTileNS demoLib else GDALDataset.NameSpace (datasets' ! i), True, False)
             = Inr (BandIdx g, TimeStamp g, t, GeoTileGranule.NameSpace g, f, h)"
      and "BandIdx g = 1 + sum_list (map (\<lambda>(a, c). IntersectionIdx a ! c * Strides a ! 0)
                                         (zip (sels ! i) cnt))"
      and imp: "(\<forall>(a, c)\<in>set (zip (sels ! i) cnt). 0 \<le> sint (IntersectionIdx a ! c * Strides a ! 0)) \<and>
            1 + sum_list (map (\<lambda>(a, c). sint (IntersectionIdx a ! c * Strides a ! 0))
                              (zip (sels ! i) cnt)) < 2 ^ 63
            \<longrightarrow> sint (BandIdx g)
                  = 1 + sum_list (map (\<lambda>(a, c). sint (IntersectionIdx a ! c * Strides a ! 0))
                                      (zip (sels ! i) cnt))
                \<and> 1 \<le> sint (BandIdx g)"
      by (elim exE conjE)
    from selected [OF s] obtain a0 where sels: "sels = [[a0]]"
      and ia: "IntersectionIdx a0 = [0, 1]" and sa: "Strides a0 = [2]" by auto
    from i sels have i0: "sels ! i = [a0]" by simp
    from len i0 obtain c0 where cnt: "cnt = [c0]" by (cases cnt) auto
    from rng i0 cnt ia have "c0 < 2" by simp
    then consider "c0 = 0" | "c0 = 1" by linarith
    then have "IntersectionIdx a0 ! c0 * Strides a0 ! 0 = 0 \<or> IntersectionIdx a0 ! c0 * Strides a0 ! 0 = 2"
      using ia sa by cases auto
    then have "0 \<le> sint (IntersectionIdx a0 ! c0 * Strides a0 ! 0) \<and>
               1 + sint (IntersectionIdx a0 ! c0 * Strides a0 ! 0) < 2 ^ 63" by auto
    with imp i0 cnt show ?thesis by simp
  qed
  then have "list_all (\<lambda>g. 1 \<le> sint (BandIdx g)) sent" by (simp add: list_all_iff)
  with run bands show ?thesis by (intro exI [of _ sent] exI [of _ ch']) (simp only: simp_thms)
qed

text \<open>With the stride \<open>- 1\<close> the selected indices are zero and one, none of them negative,
  and the second granule has the band index zero.\<close>

theorem URLIndexGet_negative_stride_counterexample:
  "map_sum id (map (map (\<lambda>a. (IntersectionIdx a, Strides a))))
     (selections demoLib (\<lambda>axis tileAxis geoReq ds. Inl GridNotEnum)
        [demoDataset [demoAxis ''level'' [10, 20] (- 1)]] (demoAllIndices, Map.empty))
     = Inr [[([0, 1], [- 1])]]
   \<and> map_sum id (\<lambda>(sent, ch'). map (\<lambda>g. sint (BandIdx g)) sent)
       (URLIndexGet demoLib (\<lambda>axis tileAxis geoReq ds. Inl GridNotEnum) (\<lambda>k i. 0) (\<lambda>i. NothingPending)
          demoAllIndices False (Response [] [demoDataset [demoAxis ''level'' [10, 20] (- 1)]])
          \<lparr>capacity = 1, buf = []\<rparr>) = Inr [1, 0]"
  by code_simp








subsection \<open>Band-math complexity check\<close>

text \<open>
  C9. Whenever the criteria's \<open>VariableLookup\<close> set is empty, the complexity check rejects
  every expression set with the "not enabled" error, whatever the expressions, the
  ceilings and the ACL are; this includes expression sets without any variable that
  satisfy every numeric ceiling.
\<close>

theorem CheckBandExpressionsComplexity_empty_lookup:
  "VariableLookup criteria = {} \<Longrightarrow>
   CheckBandExpressionsComplexity VARIABLE kindString bandExpr criteria = Some NotEnabled"
  by (simp add: CheckBandExpressionsComplexity_def)

theorem CheckBandExpressionsComplexity_empty_lookup_witness:
  "VariableLookup \<lparr>MaxVariables = 10, MaxTokens = 10, MaxExpressions = 10,
       TokenACL = Map.empty, VariableLookup = {}\<rparr> = {}
   \<and> int (length (Expressions \<lparr>Expressions = [[\<lparr>Kind = ''NUMERIC'', Value = TOther\<rparr>]], VarList = []\<rparr>)) \<le> 10
   \<and> CheckBandExpressionsComplexity ''VARIABLE'' id
        \<lparr>Expressions = [[\<lparr>Kind = ''NUMERIC'', Value = TOther\<rparr>]], VarList = []\<rparr>
        \<lparr>MaxVariables = 10, MaxTokens = 10, MaxExpressions = 10,
         TokenACL = Map.empty, VariableLookup = {}\<rparr> = Some NotEnabled"
  using CheckBandExpressionsComplexity_empty_lookup
    [of "\<lparr>MaxVariables = 10, MaxTokens = 10, MaxExpressions = 10,
          TokenACL = Map.empty, VariableLookup = {}\<rparr>" "''VARIABLE''" id
        "\<lparr>Expressions = [[\<lparr>Kind = ''NUMERIC'', Value = TOther\<rparr>]], VarList = []\<rparr>"]
  by simp

subsection \<open>Scaler\<close>

lemmas scale_eval = load_def withFreshOut_def makeBytes_def scaleInts_def scaleBytesInPlace_def
  scaleLoopInPlace.simps
  toInt8_def toUint8_def toInt16_def toUint16_def fconv_def trunc_def
  offsetClip_def scaleSample_def outRaster_def signed_divide_int_def Let_def






text \<open>
  C1. The specification's mapping \<open>floor((v - offset) / (clip - offset) * 255)\<close> gives 127
  for the sample 5 with offset 0 and clip 10. The code subtracts \<open>clip\<close> where the
  mapping subtracts \<open>offset\<close>: on a 16-bit raster holding that sample it stores 0.
\<close>

theorem scaleNew_Int16_numerator: "scaleNew impl f32px [I16Buf [5]]
     (Int16Raster \<lparr>NameSpace = ''b'', Data = 0, Height = 1, Width = 1, NoData = -9999\<rparr>)
     \<lparr>Offset = 0, Scale = 0, Clip = 10, ColourScale = 0\<rparr>
   = ([I16Buf [5], U8Buf [0]],
      Inr \<lparr>NameSpace = ''b'', Data = 1, Height = 1, Width = 1, NoData = -9999\<rparr>)
   \<and> spec_scale 0 10 5 = 127"
  by (simp add: scale_eval spec_scale_def)

text \<open>
  C7. With offset and clip both zero and all samples equal to 5, minimum and maximum
  are 5, the maximum is widened to 5.1, and the conversion back to the element type
  gives 5 again: the divisor is zero and the division panics, for each of the four
  integer element types.
\<close>

theorem scaleNew_equal_samples_divide:
  "snd (scaleNew impl f32px [I8Buf [5, 5]]
     (SignedByteRaster \<lparr>NameSpace = ''b'', Data = 0, Height = 1, Width = 2, NoData = -128\<rparr>)
     \<lparr>Offset = 0, Scale = 0, Clip = 0, ColourScale = 0\<rparr>) = Inl DivideByZero
   \<and> snd (scaleNew impl f32px [U8Buf [5, 5]]
     (ByteRaster \<lparr>NameSpace = ''b'', Data = 0, Height = 1, Width = 2, NoData = 255\<rparr>)
     \<lparr>Offset = 0, Scale = 0, Clip = 0, ColourScale = 0\<rparr>) = Inl DivideByZero
   \<and> snd (scaleNew impl f32px [I16Buf [5, 5]]
     (Int16Raster \<lparr>NameSpace = ''b'', Data = 0, Height = 1, Width = 2, NoData = -9999\<rparr>)
     \<lparr>Offset = 0, Scale = 0, Clip = 0, ColourScale = 0\<rparr>) = Inl DivideByZero
   \<and> snd (scaleNew impl f32px [U16Buf [5, 5]]
     (UInt16Raster \<lparr>NameSpace = ''b'', Data = 0, Height = 1, Width = 2, NoData = 65535\<rparr>)
     \<lparr>Offset = 0, Scale = 0, Clip = 0, ColourScale = 0\<rparr>) = Inl DivideByZero"
  by (simp add: scale_eval)


end
